theory Spec2Isabelle
  imports Main
begin

section \<open>Python values used by the two services\<close>

text \<open>
  Strings are lists of characters; a character stands for a code point below 256, so
  text outside Latin-1 is not covered. JSON values are the scalars a request body
  carries in its fields: null, booleans, integers and strings (arrays, objects and
  floats as field values are not modelled).
\<close>

datatype json = JNull | JBool bool | JInt int | JStr string

text \<open>Truth value of a Python object in \<^verbatim>\<open>if x:\<close>.\<close>

fun truthy :: "json \<Rightarrow> bool" where
  "truthy JNull = False"
| "truthy (JBool b) = b"
| "truthy (JInt n) = (n \<noteq> 0)"
| "truthy (JStr s) = (s \<noteq> [])"

text \<open>Python's \<^verbatim>\<open>==\<close>: a boolean equals the integer 0 or 1 it stands for.\<close>

fun py_eq :: "json \<Rightarrow> json \<Rightarrow> bool" where
  "py_eq (JBool b) (JInt n) = ((if b then 1 else 0) = n)"
| "py_eq (JInt n) (JBool b) = (n = (if b then 1 else 0))"
| "py_eq a b = (a = b)"

text \<open>\<^verbatim>\<open>d.get(k)\<close> on a dict read from JSON: a missing key reads as None.\<close>

definition dget :: "(string \<rightharpoonup> json) \<Rightarrow> string \<Rightarrow> json" where
  "dget d k = (case d k of None \<Rightarrow> JNull | Some v \<Rightarrow> v)"

text \<open>\<^verbatim>\<open>str.lower()\<close> on code points below 256: A-Z and the accented capitals move by 32.\<close>

definition lower_char :: "char \<Rightarrow> char" where
  "lower_char c =
     (let n = (of_char c :: nat)
      in if (65 \<le> n \<and> n \<le> 90) \<or> (192 \<le> n \<and> n \<le> 222 \<and> n \<noteq> 215)
         then char_of (n + 32) else c)"

definition str_lower :: "string \<Rightarrow> string" where
  "str_lower s = map lower_char s"

text \<open>\<^verbatim>\<open>str.strip()\<close>: white space (as \<^verbatim>\<open>str.isspace\<close> has it below 256) off both ends.\<close>

definition is_space :: "char \<Rightarrow> bool" where
  "is_space c = ((of_char c :: nat) \<in> {9, 10, 11, 12, 13, 28, 29, 30, 31, 32, 133, 160})"

definition str_strip :: "string \<Rightarrow> string" where
  "str_strip s = rev (dropWhile is_space (rev (dropWhile is_space s)))"

text \<open>\<^verbatim>\<open>str(n)\<close> for a non-negative integer.\<close>

definition digit_char :: "nat \<Rightarrow> char" where
  "digit_char d = ''0123456789'' ! d"

fun str_nat :: "nat \<Rightarrow> string" where
  "str_nat n = (if n < 10 then [digit_char n] else str_nat (n div 10) @ [digit_char (n mod 10)])"

declare str_nat.simps [simp del]

text \<open>\<^verbatim>\<open>sub in s\<close> on strings.\<close>

fun starts_with :: "string \<Rightarrow> string \<Rightarrow> bool" where
  "starts_with [] s = True"
| "starts_with (a # as) [] = False"
| "starts_with (a # as) (c # cs) = (a = c \<and> starts_with as cs)"

fun str_contains :: "string \<Rightarrow> string \<Rightarrow> bool" where
  "str_contains sub [] = (sub = [])"
| "str_contains sub (c # cs) = (starts_with sub (c # cs) \<or> str_contains sub cs)"

section \<open>models.py: dates\<close>

text \<open>
  \<^verbatim>\<open>parse_date\<close> is \<^verbatim>\<open>datetime.strptime(s, "%d-%m-%Y").date()\<close>. The format's regular
  expression reads a day (\<^verbatim>\<open>3[0-1]|[1-2]\d|0[1-9]|[1-9]| [1-9]\<close>), a dash, a month
  (\<^verbatim>\<open>1[0-2]|0[1-9]|[1-9]\<close>), a dash and a year of exactly four digits, and must use up
  the string. No alternative of day or month matches a dash, so the day is the text before
  the first dash and the month the text between the first two. The date must exist:
  year 1 to 9999 and a day of that month. None stands for the ValueError.
\<close>

datatype date = Date (year: nat) (month: nat) (day: nat)

definition digit_val :: "char \<Rightarrow> nat option" where
  "digit_val c =
     (let n = (of_char c :: nat) in if 48 \<le> n \<and> n \<le> 57 then Some (n - 48) else None)"

fun day_tok :: "string \<Rightarrow> nat option" where
  "day_tok [a] = (case digit_val a of Some x \<Rightarrow> (if 1 \<le> x then Some x else None) | None \<Rightarrow> None)"
| "day_tok [a, b] =
     (case digit_val b of
        None \<Rightarrow> None
      | Some y \<Rightarrow>
          (case digit_val a of
             Some x \<Rightarrow>
               (if x = 3 \<and> y \<le> 1 then Some (30 + y)
                else if x = 1 \<or> x = 2 then Some (10 * x + y)
                else if x = 0 \<and> 1 \<le> y then Some y
                else None)
           | None \<Rightarrow> (if a = CHR '' '' \<and> 1 \<le> y then Some y else None)))"
| "day_tok s = None"

fun month_tok :: "string \<Rightarrow> nat option" where
  "month_tok [a] = (case digit_val a of Some x \<Rightarrow> (if 1 \<le> x then Some x else None) | None \<Rightarrow> None)"
| "month_tok [a, b] =
     (case (digit_val a, digit_val b) of
        (Some x, Some y) \<Rightarrow>
          (if x = 1 \<and> y \<le> 2 then Some (10 + y)
           else if x = 0 \<and> 1 \<le> y then Some y
           else None)
      | _ \<Rightarrow> None)"
| "month_tok s = None"

fun year_tok :: "string \<Rightarrow> nat option" where
  "year_tok [a, b, c, d] =
     (case (digit_val a, digit_val b, digit_val c, digit_val d) of
        (Some w, Some x, Some y, Some z) \<Rightarrow> Some (1000 * w + 100 * x + 10 * y + z)
      | _ \<Rightarrow> None)"
| "year_tok s = None"

definition is_leap :: "nat \<Rightarrow> bool" where
  "is_leap y = (y mod 4 = 0 \<and> (y mod 100 \<noteq> 0 \<or> y mod 400 = 0))"

definition days_in_month :: "nat \<Rightarrow> nat \<Rightarrow> nat" where
  "days_in_month y m =
     (if m = 2 then (if is_leap y then 29 else 28)
      else if m = 4 \<or> m = 6 \<or> m = 9 \<or> m = 11 then 30 else 31)"

definition not_dash :: "char \<Rightarrow> bool" where
  "not_dash c = (c \<noteq> CHR ''-'')"

definition parse_date :: "string \<Rightarrow> date option" where
  "parse_date s =
     (case dropWhile not_dash s of
        [] \<Rightarrow> None
      | _ # r1 \<Rightarrow>
          (case dropWhile not_dash r1 of
             [] \<Rightarrow> None
           | _ # r2 \<Rightarrow>
               (case (day_tok (takeWhile not_dash s), month_tok (takeWhile not_dash r1),
                      year_tok r2) of
                  (Some d, Some m, Some y) \<Rightarrow>
                    (if 1 \<le> y \<and> d \<le> days_in_month y m then Some (Date y m d) else None)
                | _ \<Rightarrow> None)))"

text \<open>\<^verbatim>\<open>date.toordinal()\<close>: the day number, 1 for 01-01-0001.\<close>

definition days_before_year :: "nat \<Rightarrow> int" where
  "days_before_year y =
     (let p = int y - 1 in p * 365 + p div 4 - p div 100 + p div 400)"

definition days_before_month :: "nat \<Rightarrow> nat \<Rightarrow> int" where
  "days_before_month y m = (\<Sum>k \<leftarrow> [1 ..< m]. int (days_in_month y k))"

definition toordinal :: "date \<Rightarrow> int" where
  "toordinal d = days_before_year (year d) + days_before_month (year d) (month d) + int (day d)"

text \<open>\<^verbatim>\<open>compare_dates\<close>: the days of \<^verbatim>\<open>d1 - d2\<close>; None when either string fails to parse.\<close>

definition compare_dates :: "string \<Rightarrow> string \<Rightarrow> int option" where
  "compare_dates d1_str d2_str =
     (case parse_date d1_str of
        None \<Rightarrow> None
      | Some d1 \<Rightarrow>
          (case parse_date d2_str of
             None \<Rightarrow> None
           | Some d2 \<Rightarrow> Some (toordinal d1 - toordinal d2)))"

section \<open>ninja_client.py: the taxonomy resolver\<close>

datatype error = ValueError | NinjaNotFound | NinjaApiError nat | KeyError | OtherError

record taxonomy =
  tx_family :: string
  tx_genus :: string
  tx_attributes :: "string list"
  tx_lifespan :: "int option"

definition ASSN4_PETTYPE_MAP :: "(string \<times> taxonomy) list" where
  "ASSN4_PETTYPE_MAP =
     [(''golden retriever'',
        \<lparr>tx_family = ''Canidae'', tx_genus = ''Canis'', tx_attributes = [],
         tx_lifespan = Some 12\<rparr>),
      (''australian shepherd'',
        \<lparr>tx_family = ''Canidae'', tx_genus = ''Canis'',
         tx_attributes = [''Loyal'', ''outgoing'', ''and'', ''friendly''],
         tx_lifespan = Some 15\<rparr>),
      (''abyssinian'',
        \<lparr>tx_family = ''Felidae'', tx_genus = ''Felis'',
         tx_attributes = [''Intelligent'', ''and'', ''curious''],
         tx_lifespan = Some 13\<rparr>),
      (''bulldog'',
        \<lparr>tx_family = ''Canidae'', tx_genus = ''Canis'',
         tx_attributes = [''Gentle'', ''calm'', ''and'', ''affectionate''],
         tx_lifespan = None\<rparr>)]"

text \<open>
  What the catalog service finds outside itself. \<open>http_get\<close> is \<^verbatim>\<open>requests.get\<close> on a
  picture URL: a response (status code, Content-Type header, empty when absent) or an
  exception. \<open>py_hash\<close> is Python's \<^verbatim>\<open>hash\<close>. \<open>ninja_live\<close> is the second step of
  \<^verbatim>\<open>fetch_pet_type_data\<close> as a whole (reading the API key, the request to the animals
  API, the choice of the entry and the extraction of its fields): its result or the
  exception it raises.
\<close>

datatype get_outcome = GetResponse nat string | GetRaises error

record env =
  http_get :: "json \<Rightarrow> get_outcome"
  py_hash :: "json \<Rightarrow> int"
  ninja_live :: "string \<Rightarrow> error + taxonomy"

text \<open>What a handler does outside the catalog, in order.\<close>

datatype event = NinjaLookup string | Download json | RemoveFile string

fun is_download :: "event \<Rightarrow> bool" where
  "is_download (Download u) = True"
| "is_download e = False"

fun is_removal :: "event \<Rightarrow> bool" where
  "is_removal (RemoveFile f) = True"
| "is_removal e = False"

definition fetch_pet_type_data :: "env \<Rightarrow> string \<Rightarrow> (error + taxonomy) \<times> event list" where
  "fetch_pet_type_data env type_name =
     (let key = str_lower (str_strip type_name)
      in case map_of ASSN4_PETTYPE_MAP key of
           Some info \<Rightarrow> (Inr info, [])
         | None \<Rightarrow> (ninja_live env type_name, [NinjaLookup type_name]))"

section \<open>models.py: the in-memory catalog\<close>

record pet_type =
  pt_id :: string
  pt_type :: string
  pt_family :: string
  pt_genus :: string
  pt_attributes :: "string list"
  pt_lifespan :: "int option"
  pt_pets :: "string list"

record pet =
  p_name :: string
  p_birthdate :: string
  p_picture :: string
  p_picture_url :: json

text \<open>The module's globals: three dicts and the id counter.\<close>

record catalog =
  pet_types :: "string \<rightharpoonup> pet_type"
  pets_by_type :: "string \<rightharpoonup> (string \<rightharpoonup> pet)"
  type_name_to_id :: "string \<rightharpoonup> string"
  next_pet_type_id :: nat

definition init_catalog :: catalog where
  "init_catalog =
     \<lparr>pet_types = Map.empty, pets_by_type = Map.empty, type_name_to_id = Map.empty,
      next_pet_type_id = 1\<rparr>"

definition generate_pet_type_id :: "catalog \<Rightarrow> string \<times> catalog" where
  "generate_pet_type_id s =
     (str_nat (next_pet_type_id s), s\<lparr>next_pet_type_id := next_pet_type_id s + 1\<rparr>)"

definition pet_type_exists_by_name :: "catalog \<Rightarrow> string \<Rightarrow> bool" where
  "pet_type_exists_by_name s type_name = (type_name_to_id s (str_lower type_name) \<noteq> None)"

definition register_pet_type :: "pet_type \<Rightarrow> catalog \<Rightarrow> catalog" where
  "register_pet_type pet_type_obj s =
     s\<lparr>pet_types := (pet_types s)(pt_id pet_type_obj \<mapsto> pet_type_obj),
       pets_by_type := (pets_by_type s)(pt_id pet_type_obj \<mapsto> Map.empty),
       type_name_to_id :=
         (type_name_to_id s)(str_lower (pt_type pet_type_obj) \<mapsto> pt_id pet_type_obj)\<rparr>"

definition remove_pet_type :: "string \<Rightarrow> catalog \<Rightarrow> catalog" where
  "remove_pet_type pet_type_id s =
     (case pet_types s pet_type_id of
        None \<Rightarrow> s
      | Some pt \<Rightarrow>
          s\<lparr>pet_types := (pet_types s)(pet_type_id := None),
            pets_by_type := (pets_by_type s)(pet_type_id := None),
            type_name_to_id := (type_name_to_id s)(str_lower (pt_type pt) := None)\<rparr>)"

definition get_pets_for_type :: "string \<Rightarrow> catalog \<Rightarrow> (string \<rightharpoonup> pet)" where
  "get_pets_for_type pet_type_id s =
     (case pets_by_type s pet_type_id of None \<Rightarrow> Map.empty | Some pets \<Rightarrow> pets)"

text \<open>
  \<^verbatim>\<open>add_pet\<close> writes the pet under its lower-cased name, then appends the name to the
  type's list unless the very same string is in it. \<^verbatim>\<open>pet_types[pet_type_id]\<close> raises
  KeyError for an unknown id, after the first write.
\<close>

definition add_pet :: "string \<Rightarrow> pet \<Rightarrow> catalog \<Rightarrow> error option \<times> catalog" where
  "add_pet pet_type_id internal_pet s =
     (let pets = get_pets_for_type pet_type_id s;
          name_lower = str_lower (p_name internal_pet);
          s1 = s\<lparr>pets_by_type := (pets_by_type s)(pet_type_id \<mapsto> pets(name_lower \<mapsto> internal_pet))\<rparr>
      in case pet_types s1 pet_type_id of
           None \<Rightarrow> (Some KeyError, s1)
         | Some pt \<Rightarrow>
             (if p_name internal_pet \<notin> set (pt_pets pt)
              then (None,
                    s1\<lparr>pet_types := (pet_types s1)(pet_type_id \<mapsto>
                          pt\<lparr>pt_pets := pt_pets pt @ [p_name internal_pet]\<rparr>)\<rparr>)
              else (None, s1)))"

text \<open>
  \<^verbatim>\<open>delete_pet\<close> pops the lower-cased name and, when a pet was there, keeps in the type's
  list the names whose lower-cased form differs. The result is the popped pet, if any.
\<close>

definition delete_pet :: "string \<Rightarrow> string \<Rightarrow> catalog \<Rightarrow> (error + pet option) \<times> catalog" where
  "delete_pet pet_type_id pet_name s =
     (let pets = get_pets_for_type pet_type_id s;
          name_lower = str_lower pet_name
      in case pets name_lower of
           None \<Rightarrow> (Inr None, s)
         | Some pet \<Rightarrow>
             (let s1 = s\<lparr>pets_by_type := (pets_by_type s)(pet_type_id \<mapsto> pets(name_lower := None))\<rparr>
              in case pet_types s1 pet_type_id of
                   None \<Rightarrow> (Inl KeyError, s1)
                 | Some pt \<Rightarrow>
                     (Inr (Some pet),
                      s1\<lparr>pet_types := (pet_types s1)(pet_type_id \<mapsto>
                            pt\<lparr>pt_pets := filter (\<lambda>n. str_lower n \<noteq> name_lower) (pt_pets pt)\<rparr>)\<rparr>)))"

section \<open>petstore/app.py: the catalog service\<close>

text \<open>
  A request: whether its media type is JSON, and the body as \<^verbatim>\<open>get_json(silent=True)\<close>
  gives it when it is a JSON object. None stands for no body or an unreadable one, and
  for a body that is JSON but not an object, which \<^verbatim>\<open>create_pet\<close>, \<^verbatim>\<open>update_pet\<close> and
  \<^verbatim>\<open>create_purchase\<close> refuse alike (\<^verbatim>\<open>isinstance(data, dict)\<close>); \<^verbatim>\<open>create_pet_type\<close>
  refuses it too unless it is a string or an array that contains \<^verbatim>\<open>"type"\<close>, where it
  raises, a case left out here.
  A reply: the status code and the body. Both services use the same shapes; a
  transaction is the order service's record of a purchase in its ledger.
\<close>

record request =
  req_is_json :: bool
  req_data :: "(string \<rightharpoonup> json) option"

record transaction =
  tr_purchaser :: string
  tr_pet_type :: string
  tr_store :: nat
  tr_pet_name :: string
  tr_purchase_id :: string

datatype body =
    JError string
  | JServerError string
  | PetTypeJson pet_type
  | PetJson string string string
  | NoBody
  | Unhandled

type_synonym reply = "nat \<times> body"

definition json_error :: "string \<Rightarrow> nat \<Rightarrow> reply" where
  "json_error message status = (status, JError message)"

definition server_error_from_ninja :: "nat \<Rightarrow> reply" where
  "server_error_from_ninja status_code =
     (500, JServerError (''API response code '' @ str_nat status_code))"

definition pet_to_json :: "pet \<Rightarrow> body" where
  "pet_to_json internal_pet =
     PetJson (p_name internal_pet) (p_birthdate internal_pet) (p_picture internal_pet)"

text \<open>An exception no handler catches: the framework answers 500.\<close>

definition unhandled :: reply where
  "unhandled = (500, Unhandled)"

definition create_pet_type :: "env \<Rightarrow> request \<Rightarrow> catalog \<Rightarrow> reply \<times> catalog \<times> event list" where
  "create_pet_type env req s =
     (if \<not> req_is_json req
      then (json_error ''Expected application/json media type'' 415, s, [])
      else case req_data req of
        None \<Rightarrow> (json_error ''Malformed data'' 400, s, [])
      | Some data \<Rightarrow>
          (case data ''type'' of
             Some (JStr type_name) \<Rightarrow>
               (if pet_type_exists_by_name s type_name
                then (json_error ''Malformed data'' 400, s, [])
                else case fetch_pet_type_data env type_name of
                  (Inl NinjaNotFound, evs) \<Rightarrow> (json_error ''Malformed data'' 400, s, evs)
                | (Inl (NinjaApiError c), evs) \<Rightarrow> (server_error_from_ninja c, s, evs)
                | (Inl _, evs) \<Rightarrow> ((500, JServerError ''API call failed''), s, evs)
                | (Inr info, evs) \<Rightarrow>
                    (let (pet_type_id, s1) = generate_pet_type_id s;
                         pet_type_obj =
                           \<lparr>pt_id = pet_type_id, pt_type = type_name,
                            pt_family = tx_family info, pt_genus = tx_genus info,
                            pt_attributes = tx_attributes info,
                            pt_lifespan = tx_lifespan info, pt_pets = []\<rparr>
                     in ((201, PetTypeJson pet_type_obj),
                         register_pet_type pet_type_obj s1, evs)))
           | _ \<Rightarrow> (json_error ''Malformed data'' 400, s, [])))"

definition delete_pet_type :: "string \<Rightarrow> catalog \<Rightarrow> reply \<times> catalog \<times> event list" where
  "delete_pet_type pet_type_id s =
     (case pet_types s pet_type_id of
        None \<Rightarrow> (json_error ''Not found'' 404, s, [])
      | Some pt \<Rightarrow>
          (if pt_pets pt \<noteq> []
           then (json_error ''Malformed data'' 400, s, [])
           else ((204, NoBody), remove_pet_type pet_type_id s, [])))"

text \<open>
  \<^verbatim>\<open>_download_picture\<close>: one GET; a status other than 200 raises NinjaApiError; otherwise
  the picture is written under a name made of the URL's hash and an extension read off
  the content type. The file system itself is not modelled.
\<close>

definition download_picture :: "env \<Rightarrow> json \<Rightarrow> (error + string) \<times> event list" where
  "download_picture env picture_url =
     (case http_get env picture_url of
        GetRaises e \<Rightarrow> (Inl e, [Download picture_url])
      | GetResponse status_code content_type \<Rightarrow>
          (if status_code \<noteq> 200
           then (Inl (NinjaApiError status_code), [Download picture_url])
           else (Inr (''pet_'' @ str_nat (nat \<bar>py_hash env picture_url\<bar>)
                        @ (if str_contains ''png'' (str_lower content_type)
                           then ''.png'' else ''.jpg'')),
                 [Download picture_url])))"

text \<open>
  The birthdate of the payload once validated: the string \<^verbatim>\<open>"NA"\<close> or a string that
  parses; anything else (a value that is not a string included) is the ValueError.
\<close>

fun checked_birthdate :: "json \<Rightarrow> string option" where
  "checked_birthdate (JStr b) =
     (if b = ''NA'' then Some b else if parse_date b \<noteq> None then Some b else None)"
| "checked_birthdate v = None"

definition build_or_update_pet ::
  "env \<Rightarrow> (string \<rightharpoonup> json) \<Rightarrow> pet option \<Rightarrow> (error + pet) \<times> event list" where
  "build_or_update_pet env data existing_pet =
     (case data ''name'' of
        Some (JStr name) \<Rightarrow>
          (case checked_birthdate
                  (case data ''birthdate'' of None \<Rightarrow> JStr ''NA'' | Some v \<Rightarrow> v) of
             None \<Rightarrow> (Inl ValueError, [])
           | Some given_birthdate \<Rightarrow>
               (let birthdate =
                      (case existing_pet of
                         None \<Rightarrow> given_birthdate
                       | Some ex \<Rightarrow>
                           if data ''birthdate'' = None then p_birthdate ex
                           else given_birthdate);
                    (picture, picture_url, old_picture_file) =
                      (case existing_pet of
                         None \<Rightarrow> (''NA'', dget data ''picture-url'', None)
                       | Some ex \<Rightarrow>
                           if data ''picture-url'' = None
                           then (p_picture ex, p_picture_url ex, None)
                           else if py_eq (dget data ''picture-url'') (p_picture_url ex)
                           then (p_picture ex, dget data ''picture-url'', None)
                           else (''NA'', dget data ''picture-url'', Some (p_picture ex)));
                    wanted =
                      (truthy picture_url \<and>
                       (case existing_pet of
                          None \<Rightarrow> True
                        | Some ex \<Rightarrow> picture \<noteq> p_picture ex))
                in case (if wanted then download_picture env picture_url
                         else (Inr picture, [])) of
                     (Inl e, evs) \<Rightarrow> (Inl e, evs)
                   | (Inr file_name, evs) \<Rightarrow>
                       (Inr \<lparr>p_name = name, p_birthdate = birthdate,
                             p_picture = file_name, p_picture_url = picture_url\<rparr>,
                        evs @ (case old_picture_file of
                                 None \<Rightarrow> []
                               | Some f \<Rightarrow>
                                   if f \<noteq> [] \<and> f \<noteq> ''NA'' then [RemoveFile f] else []))))
      | _ \<Rightarrow> (Inl ValueError, []))"

text \<open>What \<^verbatim>\<open>create_pet\<close> and \<^verbatim>\<open>update_pet\<close> answer when building the pet raised.\<close>

fun build_failed :: "error \<Rightarrow> reply" where
  "build_failed ValueError = json_error ''Malformed data'' 400"
| "build_failed (NinjaApiError c) = server_error_from_ninja c"
| "build_failed e = unhandled"

definition store_pet :: "nat \<Rightarrow> string \<Rightarrow> pet \<Rightarrow> catalog \<Rightarrow> event list \<Rightarrow> reply \<times> catalog \<times> event list" where
  "store_pet status pet_type_id internal_pet s evs =
     (case add_pet pet_type_id internal_pet s of
        (Some e, s1) \<Rightarrow> (unhandled, s1, evs)
      | (None, s1) \<Rightarrow> ((status, pet_to_json internal_pet), s1, evs))"

definition create_pet ::
  "env \<Rightarrow> string \<Rightarrow> request \<Rightarrow> catalog \<Rightarrow> reply \<times> catalog \<times> event list" where
  "create_pet env pet_type_id req s =
     (if pet_types s pet_type_id = None then (json_error ''Not found'' 404, s, [])
      else if \<not> req_is_json req
      then (json_error ''Expected application/json media type'' 415, s, [])
      else case req_data req of
        None \<Rightarrow> (json_error ''Malformed data'' 400, s, [])
      | Some data \<Rightarrow>
          (case build_or_update_pet env data None of
             (Inl e, evs) \<Rightarrow> (build_failed e, s, evs)
           | (Inr internal_pet, evs) \<Rightarrow> store_pet 201 pet_type_id internal_pet s evs))"

definition delete_pet_route :: "string \<Rightarrow> string \<Rightarrow> catalog \<Rightarrow> reply \<times> catalog \<times> event list" where
  "delete_pet_route pet_type_id name s =
     (if pet_types s pet_type_id = None then (json_error ''Not found'' 404, s, [])
      else case delete_pet pet_type_id name s of
        (Inl e, s1) \<Rightarrow> (unhandled, s1, [])
      | (Inr None, s1) \<Rightarrow> (json_error ''Not found'' 404, s1, [])
      | (Inr (Some pet), s1) \<Rightarrow>
          ((204, NoBody), s1,
           if p_picture pet \<noteq> ''NA'' then [RemoveFile (p_picture pet)] else []))"

definition update_pet ::
  "env \<Rightarrow> string \<Rightarrow> string \<Rightarrow> request \<Rightarrow> catalog \<Rightarrow> reply \<times> catalog \<times> event list" where
  "update_pet env pet_type_id name req s =
     (if pet_types s pet_type_id = None then (json_error ''Not found'' 404, s, [])
      else if \<not> req_is_json req
      then (json_error ''Expected application/json media type'' 415, s, [])
      else case req_data req of
        None \<Rightarrow> (json_error ''Malformed data'' 400, s, [])
      | Some data \<Rightarrow>
          (case get_pets_for_type pet_type_id s (str_lower name) of
             None \<Rightarrow> (json_error ''Not found'' 404, s, [])
           | Some existing \<Rightarrow>
               (case build_or_update_pet env data (Some existing) of
                  (Inl e, evs) \<Rightarrow> (build_failed e, s, evs)
                | (Inr internal_pet, evs) \<Rightarrow> store_pet 200 pet_type_id internal_pet s evs)))"

text \<open>The catalog states the service can be in: the handlers that write, from the empty start.\<close>

inductive reachable :: "catalog \<Rightarrow> bool" where
  start: "reachable init_catalog"
| by_create_pet_type: "reachable s \<Longrightarrow> reachable (fst (snd (create_pet_type env req s)))"
| by_delete_pet_type: "reachable s \<Longrightarrow> reachable (fst (snd (delete_pet_type pet_type_id s)))"
| by_create_pet: "reachable s \<Longrightarrow> reachable (fst (snd (create_pet env pet_type_id req s)))"
| by_update_pet: "reachable s \<Longrightarrow> reachable (fst (snd (update_pet env pet_type_id name req s)))"
| by_delete_pet: "reachable s \<Longrightarrow> reachable (fst (snd (delete_pet_route pet_type_id name s)))"

section \<open>pet-order/app.py: the order service\<close>

text \<open>
  What one catalog instance answers to the order service: the status and the pet-type
  objects of \<^verbatim>\<open>GET /pet-types\<close> (of each object its \<^verbatim>\<open>type\<close> and \<^verbatim>\<open>id\<close>, the two fields
  read), the status and the pets' names of \<^verbatim>\<open>GET /pet-types/{id}/pets\<close>, and the status
  of \<^verbatim>\<open>DELETE /pet-types/{id}/pets/{name}\<close>. A purchase sends each request at most once,
  so one answer per request is enough. A request that raises (no connection) is not
  modelled.
\<close>

record store_env =
  types_status :: nat
  types_json :: "(string \<times> string) list"
  pets_status :: "string \<Rightarrow> nat"
  pets_json :: "string \<Rightarrow> string list"
  delete_status :: "string \<Rightarrow> string \<Rightarrow> nat"

text \<open>The requests a purchase sends, in order, each with the store it goes to.\<close>

datatype call = GetPetTypes nat | GetPets nat string | DeletePet nat string string

fun call_store :: "call \<Rightarrow> nat" where
  "call_store (GetPetTypes k) = k"
| "call_store (GetPets k i) = k"
| "call_store (DeletePet k i n) = k"

fun is_delete :: "call \<Rightarrow> bool" where
  "is_delete (DeletePet k i n) = True"
| "is_delete c = False"

definition get_pet_type_id :: "store_env \<Rightarrow> string \<Rightarrow> string option" where
  "get_pet_type_id st pet_type =
     (if types_status st \<noteq> 200 then None
      else case find (\<lambda>pt. str_lower (fst pt) = str_lower pet_type) (types_json st) of
             None \<Rightarrow> None
           | Some pt \<Rightarrow> Some (snd pt))"

definition get_pets :: "store_env \<Rightarrow> string \<Rightarrow> string list" where
  "get_pets st pet_type_id =
     (if pets_status st pet_type_id \<noteq> 200 then [] else pets_json st pet_type_id)"

definition delete_pet_at_store :: "store_env \<Rightarrow> string \<Rightarrow> string \<Rightarrow> nat" where
  "delete_pet_at_store st pet_type_id pet_name = delete_status st pet_type_id pet_name"

text \<open>
  The loop of \<^verbatim>\<open>create_purchase\<close> over \<^verbatim>\<open>stores_to_check\<close>, with the value of \<^verbatim>\<open>chosen\<close>
  it ends with. A store is passed over when the type has no id there (or an empty one)
  or no pets; with a pet name that counts as true, the first pet of that lower-cased
  name is chosen and a store without one is passed over; otherwise
  \<^verbatim>\<open>random.choice\<close> draws, here the pet at index \<open>pick mod length pets\<close>. A pet name that
  counts as true and is not a string has no \<^verbatim>\<open>lower\<close>: the handler raises.
\<close>

datatype selection = Chosen nat string string | NotChosen | Raised

definition after :: "call list \<Rightarrow> selection \<times> call list \<Rightarrow> selection \<times> call list" where
  "after calls r = (fst r, calls @ snd r)"

fun select_pet ::
  "(nat \<Rightarrow> store_env) \<Rightarrow> nat \<Rightarrow> string \<Rightarrow> json \<Rightarrow> nat list \<Rightarrow> selection \<times> call list" where
  "select_pet stores pick pet_type pet_name [] = (NotChosen, [])"
| "select_pet stores pick pet_type pet_name (store_id # rest) =
     (case get_pet_type_id (stores store_id) pet_type of
        None \<Rightarrow> after [GetPetTypes store_id] (select_pet stores pick pet_type pet_name rest)
      | Some pet_type_id \<Rightarrow>
          (if pet_type_id = []
           then after [GetPetTypes store_id] (select_pet stores pick pet_type pet_name rest)
           else if get_pets (stores store_id) pet_type_id = []
           then after [GetPetTypes store_id, GetPets store_id pet_type_id]
                  (select_pet stores pick pet_type pet_name rest)
           else if truthy pet_name
           then (case pet_name of
                   JStr wanted \<Rightarrow>
                     (case find (\<lambda>p. str_lower p = str_lower wanted)
                             (get_pets (stores store_id) pet_type_id) of
                        Some p \<Rightarrow>
                          (Chosen store_id pet_type_id p,
                           [GetPetTypes store_id, GetPets store_id pet_type_id])
                      | None \<Rightarrow>
                          after [GetPetTypes store_id, GetPets store_id pet_type_id]
                            (select_pet stores pick pet_type pet_name rest))
                 | _ \<Rightarrow> (Raised, [GetPetTypes store_id, GetPets store_id pet_type_id]))
           else (Chosen store_id pet_type_id
                   (get_pets (stores store_id) pet_type_id
                      ! (pick mod length (get_pets (stores store_id) pet_type_id))),
                 [GetPetTypes store_id, GetPets store_id pet_type_id])))"

definition stores_to_check :: "json \<Rightarrow> nat list" where
  "stores_to_check store =
     (if py_eq store (JInt 1) then [1] else if py_eq store (JInt 2) then [2] else [1, 2])"

text \<open>
  \<^verbatim>\<open>create_purchase\<close>: the reply, the ledger afterwards and the requests sent. \<open>stores\<close>
  gives the answers of store 1 and store 2, \<open>uuid\<close> the fresh purchase id.
  After a deletion answered 204 the handler builds the transaction dict and passes it to
  \<^verbatim>\<open>insert_one\<close>, which stores it (an append to the ledger) and adds to that same dict
  an \<^verbatim>\<open>_id\<close> holding an ObjectId; \<^verbatim>\<open>jsonify(transaction)\<close> then raises on the
  ObjectId, no handler catches it, and the reply is 500 - with the pet deleted and the
  ledger written.
\<close>

definition create_purchase ::
  "(nat \<Rightarrow> store_env) \<Rightarrow> nat \<Rightarrow> string \<Rightarrow> request \<Rightarrow> transaction list
     \<Rightarrow> reply \<times> transaction list \<times> call list" where
  "create_purchase stores pick uuid req ledger =
     (if \<not> req_is_json req
      then (json_error ''Expected application/json media type'' 415, ledger, [])
      else case req_data req of
        None \<Rightarrow> (json_error ''Malformed data'' 400, ledger, [])
      | Some data \<Rightarrow>
          (case (dget data ''purchaser'', dget data ''pet-type'') of
             (JStr purchaser, JStr pet_type) \<Rightarrow>
               (let store = dget data ''store''; pet_name = dget data ''pet-name''
                in if store \<noteq> JNull \<and> \<not> (py_eq store (JInt 1) \<or> py_eq store (JInt 2))
                   then (json_error ''Malformed data'' 400, ledger, [])
                   else if store = JNull \<and> pet_name \<noteq> JNull
                   then (json_error ''Malformed data'' 400, ledger, [])
                   else case select_pet stores pick pet_type pet_name (stores_to_check store) of
                     (NotChosen, calls) \<Rightarrow>
                       (json_error ''No pet of this type is available'' 400, ledger, calls)
                   | (Raised, calls) \<Rightarrow> (unhandled, ledger, calls)
                   | (Chosen store_id pet_type_id chosen_name, calls) \<Rightarrow>
                       (if delete_pet_at_store (stores store_id) pet_type_id chosen_name \<noteq> 204
                        then (json_error ''No pet of this type is available'' 400, ledger,
                              calls @ [DeletePet store_id pet_type_id chosen_name])
                        else (let transaction =
                                    \<lparr>tr_purchaser = purchaser, tr_pet_type = pet_type,
                                     tr_store = store_id, tr_pet_name = chosen_name,
                                     tr_purchase_id = uuid\<rparr>
                              in (unhandled, ledger @ [transaction],
                                  calls @ [DeletePet store_id pet_type_id chosen_name]))))
           | _ \<Rightarrow> (json_error ''Malformed data'' 400, ledger, [])))"

section \<open>Example inputs\<close>

text \<open>A request with a JSON object as its body.\<close>

definition json_request :: "(string \<times> json) list \<Rightarrow> request" where
  "json_request kvs = \<lparr>req_is_json = True, req_data = Some (map_of kvs)\<rparr>"

text \<open>
  Catalog instances as the order service sees them: one with no pet-type at all,
  one with the type Bulldog (id 1) and the pet Rex which it deletes on request, and one
  that lists the same pet and answers 404 to its deletion (the pet went in between).
\<close>

definition empty_store :: store_env where
  "empty_store =
     \<lparr>types_status = 200, types_json = [], pets_status = (\<lambda>i. 404), pets_json = (\<lambda>i. []),
      delete_status = (\<lambda>i n. 404)\<rparr>"

definition rex_store :: store_env where
  "rex_store =
     \<lparr>types_status = 200, types_json = [(''Bulldog'', ''1'')],
      pets_status = (\<lambda>i. if i = ''1'' then 200 else 404),
      pets_json = (\<lambda>i. if i = ''1'' then [''Rex''] else []),
      delete_status = (\<lambda>i n. if i = ''1'' \<and> n = ''Rex'' then 204 else 404)\<rparr>"

definition refusing_store :: store_env where
  "refusing_store = rex_store\<lparr>delete_status := (\<lambda>i n. 404)\<rparr>"

text \<open>A fourth, with the same type and the pet Max instead.\<close>

definition max_store :: store_env where
  "max_store =
     rex_store\<lparr>pets_json := (\<lambda>i. if i = ''1'' then [''Max''] else []),
               delete_status := (\<lambda>i n. if i = ''1'' \<and> n = ''Max'' then 204 else 404)\<rparr>"

text \<open>
  A surrounding for the catalog service: one picture URL answers 200 with a PNG, every
  other 404; the live lookup knows every name.
\<close>

definition picture_env :: env where
  "picture_env =
     \<lparr>http_get = (\<lambda>u. if u = JStr ''http://pics/a.png'' then GetResponse 200 ''image/png''
                       else GetResponse 404 ''text/html''),
      py_hash = (\<lambda>u. - 7),
      ninja_live = (\<lambda>n. Inr \<lparr>tx_family = ''Felidae'', tx_genus = ''Felis'',
                                tx_attributes = [], tx_lifespan = None\<rparr>)\<rparr>"

text \<open>The same with a picture host that answers 200 to every URL.\<close>

definition open_env :: env where
  "open_env = picture_env\<lparr>http_get := (\<lambda>u. GetResponse 200 ''image/jpeg'')\<rparr>"

text \<open>
  Catalogs reached from the empty one: after registering Bulldog; after adding the pet
  Rex with a birthdate and a picture; after adding a pet named rex as well.
\<close>

definition bulldog_catalog :: catalog where
  "bulldog_catalog =
     fst (snd (create_pet_type picture_env (json_request [(''type'', JStr ''Bulldog'')])
                 init_catalog))"

definition rex_catalog :: catalog where
  "rex_catalog =
     fst (snd (create_pet picture_env ''1''
                 (json_request [(''name'', JStr ''Rex''), (''birthdate'', JStr ''01-03-2024''),
                                (''picture-url'', JStr ''http://pics/a.png'')])
                 bulldog_catalog))"

definition twice_named :: catalog where
  "twice_named =
     fst (snd (create_pet picture_env ''1'' (json_request [(''name'', JStr ''rex'')])
                 rex_catalog))"

text \<open>Deleting pets of a type by name, one request after the other.\<close>

fun delete_pets :: "string \<Rightarrow> string list \<Rightarrow> catalog \<Rightarrow> catalog" where
  "delete_pets pet_type_id [] s = s"
| "delete_pets pet_type_id (n # ns) s =
     delete_pets pet_type_id ns (fst (snd (delete_pet_route pet_type_id n s)))"

section \<open>What holds in every reachable catalog\<close>

text \<open>
  Every registered type has its lower-cased name in \<^verbatim>\<open>type_name_to_id\<close>; no two
  registered types share a lower-cased name; the lower-cased names in a type's list are
  the keys under which its pets are stored; a stored pet's picture is never the empty
  string.
\<close>

definition names_registered :: "catalog \<Rightarrow> bool" where
  "names_registered s =
     (\<forall>tid pt. pet_types s tid = Some pt \<longrightarrow> type_name_to_id s (str_lower (pt_type pt)) \<noteq> None)"

definition names_unique :: "catalog \<Rightarrow> bool" where
  "names_unique s =
     (\<forall>t1 t2 p1 p2. pet_types s t1 = Some p1 \<and> pet_types s t2 = Some p2
          \<and> str_lower (pt_type p1) = str_lower (pt_type p2) \<longrightarrow> t1 = t2)"

definition pets_listed :: "catalog \<Rightarrow> bool" where
  "pets_listed s =
     (\<forall>tid pt. pet_types s tid = Some pt \<longrightarrow>
        str_lower ` set (pt_pets pt) = dom (get_pets_for_type tid s))"

definition pictures_named :: "catalog \<Rightarrow> bool" where
  "pictures_named s =
     (\<forall>tid k p. get_pets_for_type tid s k = Some p \<longrightarrow> p_picture p \<noteq> [])"

definition catalog_inv :: "catalog \<Rightarrow> bool" where
  "catalog_inv s = (names_registered s \<and> names_unique s \<and> pets_listed s \<and> pictures_named s)"

section \<open>Properties of dates\<close>

lemma compare_dates_Some:
  assumes "parse_date a = Some x" and "parse_date b = Some y"
  shows "compare_dates a b = Some (toordinal x - toordinal y)"
  using assms by (simp add: compare_dates_def)

text \<open>
  C10. For strings A and B that parse as day-month-year dates, the comparison returns a
  number both ways round, compare(A,B) is positive exactly when compare(B,A) is
  negative, and compare(A,A) is 0.
\<close>

theorem compare_dates_antisymmetric:
  assumes "parse_date a = Some x" and "parse_date b = Some y"
  shows "\<exists>m n. compare_dates a b = Some m \<and> compare_dates b a = Some n
            \<and> (0 < m \<longleftrightarrow> n < 0) \<and> compare_dates a a = Some 0"
proof -
  have ab: "compare_dates a b = Some (toordinal x - toordinal y)"
    using assms by (rule compare_dates_Some)
  have ba: "compare_dates b a = Some (toordinal y - toordinal x)"
    using assms(2) assms(1) by (rule compare_dates_Some)
  have aa: "compare_dates a a = Some 0"
    using compare_dates_Some [OF assms(1) assms(1)] by simp
  have "(0 < toordinal x - toordinal y) = (toordinal y - toordinal x < 0)"
    by linarith
  with ab ba aa show ?thesis by simp
qed

theorem compare_dates_antisymmetric_witness:
  "parse_date ''01-03-2024'' = Some (Date 2024 3 1)
   \<and> parse_date ''28-02-2024'' = Some (Date 2024 2 28)
   \<and> (\<exists>m n. compare_dates ''01-03-2024'' ''28-02-2024'' = Some m
          \<and> compare_dates ''28-02-2024'' ''01-03-2024'' = Some n
          \<and> (0 < m \<longleftrightarrow> n < 0)
          \<and> compare_dates ''01-03-2024'' ''01-03-2024'' = Some 0)
   \<and> compare_dates ''01-03-2024'' ''28-02-2024'' = Some 2"
proof -
  have a: "parse_date ''01-03-2024'' = Some (Date 2024 3 1)" by code_simp
  have b: "parse_date ''28-02-2024'' = Some (Date 2024 2 28)" by code_simp
  have c: "compare_dates ''01-03-2024'' ''28-02-2024'' = Some 2" by code_simp
  from compare_dates_antisymmetric [OF a b] a b c show ?thesis by blast
qed

section \<open>Properties of the order service\<close>

lemma select_pet_no_delete:
  "c \<in> set (snd (select_pet stores pick pet_type pet_name ks)) \<Longrightarrow> \<not> is_delete c"
  by (induction ks) (auto simp: after_def split: option.splits json.splits if_splits)

lemma select_pet_calls_stores:
  "c \<in> set (snd (select_pet stores pick pet_type pet_name ks)) \<Longrightarrow> call_store c \<in> set ks"
  by (induction ks) (auto simp: after_def split: option.splits json.splits if_splits)

lemma select_pet_chosen_fst:
  "fst (select_pet stores pick pet_type pet_name ks) = Chosen k i n \<Longrightarrow>
     k \<in> set ks \<and> get_pet_type_id (stores k) pet_type = Some i \<and> i \<noteq> []
     \<and> n \<in> set (get_pets (stores k) i)"
proof (induction ks)
  case Nil
  then show ?case by simp
next
  case (Cons a ks)
  show ?case
  proof (cases "fst (select_pet stores pick pet_type pet_name ks) = Chosen k i n")
    case True
    with Cons.IH show ?thesis by simp
  next
    case False
    with Cons.prems show ?thesis
      by (auto simp: after_def find_Some_iff split: option.splits json.splits if_splits)
  qed
qed

lemma select_pet_chosen:
  "select_pet stores pick pet_type pet_name ks = (Chosen k i n, cs) \<Longrightarrow>
     k \<in> set ks \<and> get_pet_type_id (stores k) pet_type = Some i \<and> i \<noteq> []
     \<and> n \<in> set (get_pets (stores k) i)"
  using select_pet_chosen_fst [of stores pick pet_type pet_name ks k i n] by simp

text \<open>
  What a purchase comes to once a pet is chosen. For a request that passes validation
  and whose search ends with a pet chosen at a store, one deletion is sent, to that
  store, after every other request. If it answers anything but 204 the reply is
  400 "No pet of this type is available" and the ledger is unchanged. If it answers 204
  the transaction is appended to the ledger and the reply is the 500 of an exception
  nobody caught.
\<close>

lemma purchase_after_selection:
  assumes "req_is_json req" and "req_data req = Some data"
    and "dget data ''purchaser'' = JStr purchaser"
    and "dget data ''pet-type'' = JStr pet_type"
    and "dget data ''store'' = JNull \<or> py_eq (dget data ''store'') (JInt 1)
           \<or> py_eq (dget data ''store'') (JInt 2)"
    and "dget data ''store'' = JNull \<longrightarrow> dget data ''pet-name'' = JNull"
    and "select_pet stores pick pet_type (dget data ''pet-name'')
           (stores_to_check (dget data ''store'')) = (Chosen store_id pet_type_id name, calls)"
  shows "create_purchase stores pick uuid req ledger =
           (if delete_pet_at_store (stores store_id) pet_type_id name = 204
            then (unhandled,
                  ledger @ [\<lparr>tr_purchaser = purchaser, tr_pet_type = pet_type,
                             tr_store = store_id, tr_pet_name = name, tr_purchase_id = uuid\<rparr>],
                  calls @ [DeletePet store_id pet_type_id name])
            else (json_error ''No pet of this type is available'' 400, ledger,
                  calls @ [DeletePet store_id pet_type_id name]))
         \<and> filter is_delete calls = []"
proof -
  have nodel: "filter is_delete calls = []"
    using select_pet_no_delete [of _ stores pick pet_type "dget data ''pet-name''"
            "stores_to_check (dget data ''store'')"] assms(7)
    by (auto simp: filter_empty_conv)
  show ?thesis
    using assms nodel by (auto simp: create_purchase_def Let_def)
qed

text \<open>
  C1 fails on the code. Store 1 has the type Bulldog with the pet Rex and answers 204 to
  its deletion. The purchase deletes Rex and appends the transaction to the ledger, as
  the claim says, but it does not return it: the reply is 500, not 201 with the
  transaction.
\<close>

theorem successful_purchase_answers_500:
  "delete_pet_at_store rex_store ''1'' ''Rex'' = 204
   \<and> create_purchase (\<lambda>k. if k = 1 then rex_store else empty_store) 0 ''id-1''
        (json_request [(''purchaser'', JStr ''bob''), (''pet-type'', JStr ''bulldog'')]) []
      = ((500, Unhandled),
         [\<lparr>tr_purchaser = ''bob'', tr_pet_type = ''bulldog'', tr_store = 1,
           tr_pet_name = ''Rex'', tr_purchase_id = ''id-1''\<rparr>],
         [GetPetTypes 1, GetPets 1 ''1'', DeletePet 1 ''1'' ''Rex''])"
  by code_simp

text \<open>
  What holds of a named pet. For a JSON request with an object as body: (1) with string
  purchaser and pet-type, store 1 or 2 and a pet name that is a non-empty string, if no
  pet of the requested type at that store has that name (lower-cased), the reply is
  400 "No pet of this type is available", the ledger is unchanged, and every request
  sent went to that store and none was a deletion - whatever the other store holds;
  (2) with a pet name (any value but null) and no store the reply is
  400 "Malformed data" and nothing is sent.
\<close>

lemma named_pet_needs_its_store:
  assumes "req_is_json req" and "req_data req = Some data"
  shows "(dget data ''purchaser'' = JStr purchaser \<and> dget data ''pet-type'' = JStr pet_type
          \<and> dget data ''store'' = JInt (int k) \<and> (k = 1 \<or> k = 2)
          \<and> dget data ''pet-name'' = JStr wanted \<and> wanted \<noteq> []
          \<and> (\<forall>i. get_pet_type_id (stores k) pet_type = Some i \<longrightarrow>
                 (\<forall>p \<in> set (get_pets (stores k) i). str_lower p \<noteq> str_lower wanted))
          \<longrightarrow> (\<exists>calls. create_purchase stores pick uuid req ledger
                          = (json_error ''No pet of this type is available'' 400, ledger, calls)
                       \<and> (\<forall>c \<in> set calls. call_store c = k \<and> \<not> is_delete c)))
       \<and> (dget data ''store'' = JNull \<and> dget data ''pet-name'' \<noteq> JNull
          \<longrightarrow> create_purchase stores pick uuid req ledger
                = (json_error ''Malformed data'' 400, ledger, []))"
proof (intro conjI impI)
  assume a: "dget data ''purchaser'' = JStr purchaser \<and> dget data ''pet-type'' = JStr pet_type
          \<and> dget data ''store'' = JInt (int k) \<and> (k = 1 \<or> k = 2)
          \<and> dget data ''pet-name'' = JStr wanted \<and> wanted \<noteq> []
          \<and> (\<forall>i. get_pet_type_id (stores k) pet_type = Some i \<longrightarrow>
                 (\<forall>p \<in> set (get_pets (stores k) i). str_lower p \<noteq> str_lower wanted))"
  have chk: "stores_to_check (dget data ''store'') = [k]"
    using a by (auto simp: stores_to_check_def)
  have nofind: "\<And>i. get_pet_type_id (stores k) pet_type = Some i \<Longrightarrow>
      find (\<lambda>p. str_lower p = str_lower wanted) (get_pets (stores k) i) = None"
    using a by (auto simp: find_None_iff)
  have sel: "fst (select_pet stores pick pet_type (JStr wanted) [k]) = NotChosen"
    using a nofind by (auto simp: after_def split: option.splits)
  have calls: "\<forall>c \<in> set (snd (select_pet stores pick pet_type (JStr wanted) [k])).
                 call_store c = k \<and> \<not> is_delete c"
    using select_pet_calls_stores [of _ stores pick pet_type "JStr wanted" "[k]"]
          select_pet_no_delete [of _ stores pick pet_type "JStr wanted" "[k]"]
    by auto
  obtain cs where cs: "select_pet stores pick pet_type (JStr wanted) [k] = (NotChosen, cs)"
    using sel by (cases "select_pet stores pick pet_type (JStr wanted) [k]") auto
  have "create_purchase stores pick uuid req ledger
          = (json_error ''No pet of this type is available'' 400, ledger, cs)"
    using assms a chk cs by (auto simp: create_purchase_def Let_def)
  moreover have "\<forall>c \<in> set cs. call_store c = k \<and> \<not> is_delete c"
    using calls cs by simp
  ultimately show "\<exists>calls. create_purchase stores pick uuid req ledger
                          = (json_error ''No pet of this type is available'' 400, ledger, calls)
                       \<and> (\<forall>c \<in> set calls. call_store c = k \<and> \<not> is_delete c)"
    by blast
next
  assume "dget data ''store'' = JNull \<and> dget data ''pet-name'' \<noteq> JNull"
  then show "create_purchase stores pick uuid req ledger
                = (json_error ''Malformed data'' 400, ledger, [])"
    using assms by (auto simp: create_purchase_def Let_def split: json.splits)
qed

lemma named_pet_needs_its_store_example:
  "(\<exists>calls. create_purchase (\<lambda>k. if k = 1 then max_store else rex_store) 0 ''id-1''
       (json_request [(''purchaser'', JStr ''bob''), (''pet-type'', JStr ''bulldog''),
                      (''store'', JInt 1), (''pet-name'', JStr ''rex'')]) []
     = (json_error ''No pet of this type is available'' 400, [], calls)
     \<and> (\<forall>c \<in> set calls. call_store c = 1 \<and> \<not> is_delete c))
   \<and> get_pets rex_store ''1'' = [''Rex'']
   \<and> create_purchase (\<lambda>k. if k = 1 then max_store else rex_store) 0 ''id-1''
       (json_request [(''purchaser'', JStr ''bob''), (''pet-type'', JStr ''bulldog''),
                      (''pet-name'', JStr ''rex'')]) []
     = (json_error ''Malformed data'' 400, [], [])"
proof -
  let ?a = "[(''purchaser'', JStr ''bob''), (''pet-type'', JStr ''bulldog''),
             (''store'', JInt 1), (''pet-name'', JStr ''rex'')]"
  let ?b = "[(''purchaser'', JStr ''bob''), (''pet-type'', JStr ''bulldog''),
             (''pet-name'', JStr ''rex'')]"
  let ?stores = "\<lambda>k::nat. if k = 1 then max_store else rex_store"
  have ja: "req_is_json (json_request ?a)" and da: "req_data (json_request ?a) = Some (map_of ?a)"
    and jb: "req_is_json (json_request ?b)" and db: "req_data (json_request ?b) = Some (map_of ?b)"
    by (simp_all add: json_request_def)
  have lower: "str_lower ''Max'' \<noteq> str_lower ''rex''"
    by code_simp
  have ha: "dget (map_of ?a) ''purchaser'' = JStr ''bob'' \<and> dget (map_of ?a) ''pet-type'' = JStr ''bulldog''
          \<and> dget (map_of ?a) ''store'' = JInt (int 1) \<and> ((1::nat) = 1 \<or> (1::nat) = 2)
          \<and> dget (map_of ?a) ''pet-name'' = JStr ''rex'' \<and> ''rex'' \<noteq> []
          \<and> (\<forall>i. get_pet_type_id (?stores 1) ''bulldog'' = Some i \<longrightarrow>
                 (\<forall>p \<in> set (get_pets (?stores 1) i). str_lower p \<noteq> str_lower ''rex''))"
    using lower by (simp add: dget_def get_pets_def max_store_def rex_store_def)
  have hb: "dget (map_of ?b) ''store'' = JNull \<and> dget (map_of ?b) ''pet-name'' \<noteq> JNull"
    by (simp add: dget_def)
  have rex: "get_pets rex_store ''1'' = [''Rex'']"
    by (simp add: get_pets_def rex_store_def)
  from named_pet_needs_its_store [OF ja da, of "''bob''" "''bulldog''" 1 "''rex''" ?stores] ha
       named_pet_needs_its_store [OF jb db] hb rex
  show ?thesis by blast
qed

text \<open>
  C5 fails on the code for the pet name "". The request names store 1 and the pet name
  "", store 1 has the pet Max and no pet named "". The validation takes the empty
  string for a name (it asks for the store), the selection takes it for none: a pet of
  store 1 is drawn, deleted and entered in the ledger, where the claim has the purchase
  fail with "No pet of this type is available".
\<close>

theorem empty_pet_name_buys_a_pet:
  "get_pets max_store ''1'' = [''Max'']
   \<and> find (\<lambda>p. str_lower p = str_lower []) (get_pets max_store ''1'') = None
   \<and> create_purchase (\<lambda>k. if k = 1 then max_store else rex_store) 0 ''id-1''
        (json_request [(''purchaser'', JStr ''bob''), (''pet-type'', JStr ''bulldog''),
                       (''store'', JInt 1), (''pet-name'', JStr [])]) []
      = ((500, Unhandled),
         [\<lparr>tr_purchaser = ''bob'', tr_pet_type = ''bulldog'', tr_store = 1,
           tr_pet_name = ''Max'', tr_purchase_id = ''id-1''\<rparr>],
         [GetPetTypes 1, GetPets 1 ''1'', DeletePet 1 ''1'' ''Max''])"
  by code_simp

text \<open>
  C6, as the code has it. For a well-formed request that names no store (and so no
  pet): (1) if store 1 has no id for the type, or an empty one, or lists no pets for
  it, while store 2 has the type with at least one pet, then the pet drawn is one of
  store 2's and the requests go to store 1 first and then to store 2, ending with the
  deletion at store 2; if that deletion answers 204 the transaction of store 2 is
  appended to the ledger, and if it answers anything else the reply is
  400 "No pet of this type is available" and the ledger is unchanged; (2) if store 1
  has the type with at least one pet, the pet is drawn there and store 2 receives no
  request.
\<close>

theorem unspecified_store_falls_through:
  assumes "req_is_json req" and "req_data req = Some data"
    and "dget data ''purchaser'' = JStr purchaser" and "dget data ''pet-type'' = JStr pet_type"
    and "dget data ''store'' = JNull" and "dget data ''pet-name'' = JNull"
  shows "((get_pet_type_id (stores 1) pet_type = None
            \<or> get_pet_type_id (stores 1) pet_type = Some []
            \<or> (\<exists>i. get_pet_type_id (stores 1) pet_type = Some i \<and> get_pets (stores 1) i = []))
          \<and> get_pet_type_id (stores 2) pet_type = Some i2 \<and> i2 \<noteq> []
          \<and> get_pets (stores 2) i2 \<noteq> []
          \<and> p = get_pets (stores 2) i2 ! (pick mod length (get_pets (stores 2) i2))
          \<longrightarrow> p \<in> set (get_pets (stores 2) i2)
              \<and> (\<exists>first. first \<noteq> [] \<and> (\<forall>c \<in> set first. call_store c = 1 \<and> \<not> is_delete c)
                  \<and> snd (snd (create_purchase stores pick uuid req ledger))
                      = first @ [GetPetTypes 2, GetPets 2 i2, DeletePet 2 i2 p])
              \<and> (delete_pet_at_store (stores 2) i2 p = 204 \<longrightarrow>
                   fst (snd (create_purchase stores pick uuid req ledger))
                     = ledger @ [\<lparr>tr_purchaser = purchaser, tr_pet_type = pet_type,
                                  tr_store = 2, tr_pet_name = p, tr_purchase_id = uuid\<rparr>])
              \<and> (delete_pet_at_store (stores 2) i2 p \<noteq> 204 \<longrightarrow>
                   fst (create_purchase stores pick uuid req ledger)
                     = json_error ''No pet of this type is available'' 400
                   \<and> fst (snd (create_purchase stores pick uuid req ledger)) = ledger))
       \<and> (get_pet_type_id (stores 1) pet_type = Some i1 \<and> i1 \<noteq> []
          \<and> get_pets (stores 1) i1 \<noteq> []
          \<longrightarrow> snd (snd (create_purchase stores pick uuid req ledger))
                = [GetPetTypes 1, GetPets 1 i1,
                   DeletePet 1 i1 (get_pets (stores 1) i1
                                     ! (pick mod length (get_pets (stores 1) i1)))])"
proof -
  let ?t = "\<lparr>tr_purchaser = purchaser, tr_pet_type = pet_type, tr_store = 2,
             tr_pet_name = p, tr_purchase_id = uuid\<rparr>"
  have A: "p \<in> set (get_pets (stores 2) i2)
              \<and> (\<exists>first. first \<noteq> [] \<and> (\<forall>c \<in> set first. call_store c = 1 \<and> \<not> is_delete c)
                  \<and> snd (snd (create_purchase stores pick uuid req ledger))
                      = first @ [GetPetTypes 2, GetPets 2 i2, DeletePet 2 i2 p])
              \<and> (delete_pet_at_store (stores 2) i2 p = 204 \<longrightarrow>
                   fst (snd (create_purchase stores pick uuid req ledger)) = ledger @ [?t])
              \<and> (delete_pet_at_store (stores 2) i2 p \<noteq> 204 \<longrightarrow>
                   fst (create_purchase stores pick uuid req ledger)
                     = json_error ''No pet of this type is available'' 400
                   \<and> fst (snd (create_purchase stores pick uuid req ledger)) = ledger)"
    if a: "(get_pet_type_id (stores 1) pet_type = None
            \<or> get_pet_type_id (stores 1) pet_type = Some []
            \<or> (\<exists>i. get_pet_type_id (stores 1) pet_type = Some i \<and> get_pets (stores 1) i = []))
          \<and> get_pet_type_id (stores 2) pet_type = Some i2 \<and> i2 \<noteq> []
          \<and> get_pets (stores 2) i2 \<noteq> []
          \<and> p = get_pets (stores 2) i2 ! (pick mod length (get_pets (stores 2) i2))"
  proof -
    from a have mem: "p \<in> set (get_pets (stores 2) i2)" by simp
    have two: "select_pet stores pick pet_type JNull [2]
                 = (Chosen 2 i2 p, [GetPetTypes 2, GetPets 2 i2])"
      using a by simp
    obtain first where first: "select_pet stores pick pet_type JNull [1, 2]
        = (Chosen 2 i2 p, first @ [GetPetTypes 2, GetPets 2 i2])"
      and ne: "first \<noteq> []" and all: "\<forall>c \<in> set first. call_store c = 1 \<and> \<not> is_delete c"
    proof (cases "get_pet_type_id (stores 1) pet_type")
      case None
      with two have "select_pet stores pick pet_type JNull [1, 2]
        = (Chosen 2 i2 p, [GetPetTypes 1] @ [GetPetTypes 2, GetPets 2 i2])"
        by (simp add: after_def)
      then show ?thesis using that [of "[GetPetTypes 1]"] by simp
    next
      case (Some i)
      show ?thesis
      proof (cases "i = []")
        case True
        with Some two have "select_pet stores pick pet_type JNull [1, 2]
          = (Chosen 2 i2 p, [GetPetTypes 1] @ [GetPetTypes 2, GetPets 2 i2])"
          by (simp add: after_def)
        then show ?thesis using that [of "[GetPetTypes 1]"] by simp
      next
        case False
        with Some a have "get_pets (stores 1) i = []" by auto
        with Some False two have "select_pet stores pick pet_type JNull [1, 2]
          = (Chosen 2 i2 p, [GetPetTypes 1, GetPets 1 i] @ [GetPetTypes 2, GetPets 2 i2])"
          by (simp add: after_def)
        then show ?thesis using that [of "[GetPetTypes 1, GetPets 1 i]"] by simp
      qed
    qed
    have r: "create_purchase stores pick uuid req ledger
            = (if delete_pet_at_store (stores 2) i2 p = 204
               then (unhandled, ledger @ [?t],
                     first @ [GetPetTypes 2, GetPets 2 i2, DeletePet 2 i2 p])
               else (json_error ''No pet of this type is available'' 400, ledger,
                     first @ [GetPetTypes 2, GetPets 2 i2, DeletePet 2 i2 p]))"
      using assms first
      by (simp add: create_purchase_def stores_to_check_def Let_def del: select_pet.simps)
    have calls: "snd (snd (create_purchase stores pick uuid req ledger))
                   = first @ [GetPetTypes 2, GetPets 2 i2, DeletePet 2 i2 p]"
      unfolding r by simp
    have ok: "delete_pet_at_store (stores 2) i2 p = 204 \<longrightarrow>
                fst (snd (create_purchase stores pick uuid req ledger)) = ledger @ [?t]"
      unfolding r by simp
    have bad: "delete_pet_at_store (stores 2) i2 p \<noteq> 204 \<longrightarrow>
                fst (create_purchase stores pick uuid req ledger)
                  = json_error ''No pet of this type is available'' 400
                \<and> fst (snd (create_purchase stores pick uuid req ledger)) = ledger"
      unfolding r by simp
    from mem ne all calls ok bad show ?thesis by blast
  qed
  have B: "snd (snd (create_purchase stores pick uuid req ledger))
                = [GetPetTypes 1, GetPets 1 i1,
                   DeletePet 1 i1 (get_pets (stores 1) i1
                                     ! (pick mod length (get_pets (stores 1) i1)))]"
    if b: "get_pet_type_id (stores 1) pet_type = Some i1 \<and> i1 \<noteq> []
          \<and> get_pets (stores 1) i1 \<noteq> []"
  proof -
    from b have "select_pet stores pick pet_type JNull [1, 2]
        = (Chosen 1 i1 (get_pets (stores 1) i1 ! (pick mod length (get_pets (stores 1) i1))),
           [GetPetTypes 1, GetPets 1 i1])"
      by simp
    then show ?thesis
      using assms
      by (simp add: create_purchase_def stores_to_check_def Let_def del: select_pet.simps)
  qed
  from A B show ?thesis by blast
qed

theorem unspecified_store_falls_through_witness:
  "fst (snd (create_purchase (\<lambda>k. if k = 1 then empty_store else rex_store) 0 ''id-1''
        (json_request [(''purchaser'', JStr ''bob''), (''pet-type'', JStr ''bulldog'')]) []))
     = [\<lparr>tr_purchaser = ''bob'', tr_pet_type = ''bulldog'', tr_store = 2,
         tr_pet_name = ''Rex'', tr_purchase_id = ''id-1''\<rparr>]
   \<and> (\<exists>first. first \<noteq> []
        \<and> snd (snd (create_purchase (\<lambda>k. if k = 1 then empty_store else rex_store) 0 ''id-1''
             (json_request [(''purchaser'', JStr ''bob''), (''pet-type'', JStr ''bulldog'')]) []))
          = first @ [GetPetTypes 2, GetPets 2 ''1'', DeletePet 2 ''1'' ''Rex''])
   \<and> fst (create_purchase (\<lambda>k. if k = 1 then empty_store else refusing_store) 0 ''id-1''
        (json_request [(''purchaser'', JStr ''bob''), (''pet-type'', JStr ''bulldog'')]) [])
     = json_error ''No pet of this type is available'' 400
   \<and> fst (snd (create_purchase (\<lambda>k. if k = 1 then empty_store else refusing_store) 0 ''id-1''
        (json_request [(''purchaser'', JStr ''bob''), (''pet-type'', JStr ''bulldog'')]) []))
     = []
   \<and> snd (snd (create_purchase (\<lambda>k. if k = 1 then max_store else rex_store) 0 ''id-1''
        (json_request [(''purchaser'', JStr ''bob''), (''pet-type'', JStr ''bulldog'')]) []))
     = [GetPetTypes 1, GetPets 1 ''1'', DeletePet 1 ''1'' ''Max'']"
proof -
  let ?kvs = "[(''purchaser'', JStr ''bob''), (''pet-type'', JStr ''bulldog'')]"
  let ?req = "json_request ?kvs"
  let ?s = "\<lambda>k::nat. if k = 1 then empty_store else rex_store"
  let ?r = "\<lambda>k::nat. if k = 1 then empty_store else refusing_store"
  let ?t = "\<lambda>k::nat. if k = 1 then max_store else rex_store"
  have j: "req_is_json ?req" and d: "req_data ?req = Some (map_of ?kvs)"
    by (simp_all add: json_request_def)
  have p: "dget (map_of ?kvs) ''purchaser'' = JStr ''bob''"
    and t: "dget (map_of ?kvs) ''pet-type'' = JStr ''bulldog''"
    and s: "dget (map_of ?kvs) ''store'' = JNull"
    and n: "dget (map_of ?kvs) ''pet-name'' = JNull"
    by (simp_all add: dget_def)
  have e1: "get_pet_type_id (?s 1) ''bulldog'' = None" by code_simp
  have e2: "get_pet_type_id (?s 2) ''bulldog'' = Some ''1''" by code_simp
  have e3: "get_pets (?s 2) ''1'' = [''Rex'']" by code_simp
  have e4: "delete_pet_at_store (?s 2) ''1'' ''Rex'' = 204" by code_simp
  have r1: "get_pet_type_id (?r 1) ''bulldog'' = None" by code_simp
  have r2: "get_pet_type_id (?r 2) ''bulldog'' = Some ''1''" by code_simp
  have r3: "get_pets (?r 2) ''1'' = [''Rex'']" by code_simp
  have r4: "delete_pet_at_store (?r 2) ''1'' ''Rex'' \<noteq> 204" by code_simp
  have f1: "get_pet_type_id (?t 1) ''bulldog'' = Some ''1''" by code_simp
  have f2: "get_pets (?t 1) ''1'' = [''Max'']" by code_simp
  from unspecified_store_falls_through [OF j d p t s n,
         where stores = ?s and ?i2.0 = "''1''" and p = "''Rex''" and pick = 0
           and uuid = "''id-1''" and ledger = "[]"]
       e1 e2 e3 e4
  have A: "fst (snd (create_purchase ?s 0 ''id-1'' ?req []))
             = [\<lparr>tr_purchaser = ''bob'', tr_pet_type = ''bulldog'', tr_store = 2,
                 tr_pet_name = ''Rex'', tr_purchase_id = ''id-1''\<rparr>]
           \<and> (\<exists>first. first \<noteq> []
                \<and> snd (snd (create_purchase ?s 0 ''id-1'' ?req []))
                  = first @ [GetPetTypes 2, GetPets 2 ''1'', DeletePet 2 ''1'' ''Rex''])"
    by auto
  from unspecified_store_falls_through [OF j d p t s n,
         where stores = ?r and ?i2.0 = "''1''" and p = "''Rex''" and pick = 0
           and uuid = "''id-1''" and ledger = "[]"]
       r1 r2 r3 r4
  have R: "fst (create_purchase ?r 0 ''id-1'' ?req [])
             = json_error ''No pet of this type is available'' 400
           \<and> fst (snd (create_purchase ?r 0 ''id-1'' ?req [])) = []"
    by auto
  from unspecified_store_falls_through [OF j d p t s n,
         where stores = ?t and ?i1.0 = "''1''" and pick = 0
           and uuid = "''id-1''" and ledger = "[]"] f1 f2
  have B: "snd (snd (create_purchase ?t 0 ''id-1'' ?req []))
     = [GetPetTypes 1, GetPets 1 ''1'', DeletePet 1 ''1'' ''Max'']"
    by simp
  from A R B show ?thesis by blast
qed

text \<open>
  C6 as stated promises success whenever store 2 lists a pet of the type. Here store 1
  has no such type, store 2 lists Rex and answers 404 to the deletion: the purchase
  fails.
\<close>

theorem refused_deletion_counterexample:
  "get_pet_type_id empty_store ''bulldog'' = None
   \<and> get_pet_type_id refusing_store ''bulldog'' = Some ''1''
   \<and> get_pets refusing_store ''1'' = [''Rex'']
   \<and> create_purchase (\<lambda>k. if k = 1 then empty_store else refusing_store) 0 ''id-1''
        (json_request [(''purchaser'', JStr ''bob''), (''pet-type'', JStr ''bulldog'')]) []
      = (json_error ''No pet of this type is available'' 400, [],
         [GetPetTypes 1, GetPetTypes 2, GetPets 2 ''1'', DeletePet 2 ''1'' ''Rex''])"
  by code_simp

section \<open>The invariant is kept\<close>

lemmas inv_defs = catalog_inv_def names_registered_def names_unique_def pets_listed_def
  pictures_named_def

lemma inv_init: "catalog_inv init_catalog"
  by (simp add: inv_defs init_catalog_def get_pets_for_type_def)

lemma inv_next_id: "catalog_inv (s\<lparr>next_pet_type_id := n\<rparr>) = catalog_inv s"
  by (simp add: inv_defs get_pets_for_type_def)

lemma names_registeredD:
  "names_registered s \<Longrightarrow> pet_types s tid = Some pt \<Longrightarrow>
     type_name_to_id s (str_lower (pt_type pt)) \<noteq> None"
  unfolding names_registered_def by blast

lemma names_uniqueD:
  "names_unique s \<Longrightarrow> pet_types s t1 = Some p1 \<Longrightarrow> pet_types s t2 = Some p2 \<Longrightarrow>
     str_lower (pt_type p1) = str_lower (pt_type p2) \<Longrightarrow> t1 = t2"
  unfolding names_unique_def by blast

lemma pets_listedD:
  "pets_listed s \<Longrightarrow> pet_types s tid = Some pt \<Longrightarrow>
     str_lower ` set (pt_pets pt) = dom (get_pets_for_type tid s)"
  unfolding pets_listed_def by blast

lemma pictures_namedD:
  "pictures_named s \<Longrightarrow> get_pets_for_type tid s k = Some p \<Longrightarrow> p_picture p \<noteq> []"
  unfolding pictures_named_def by blast

lemma catalog_invD:
  assumes "catalog_inv s"
  shows "names_registered s" and "names_unique s" and "pets_listed s" and "pictures_named s"
  using assms by (simp_all add: catalog_inv_def)

lemma inv_register:
  assumes "catalog_inv s" and "\<not> pet_type_exists_by_name s (pt_type obj)" and "pt_pets obj = []"
  shows "catalog_inv (register_pet_type obj s)"
proof -
  let ?s' = "register_pet_type obj s"
  have pt: "pet_types ?s' = (pet_types s)(pt_id obj \<mapsto> obj)"
    and tn: "type_name_to_id ?s' = (type_name_to_id s)(str_lower (pt_type obj) \<mapsto> pt_id obj)"
    and pb: "pets_by_type ?s' = (pets_by_type s)(pt_id obj \<mapsto> Map.empty)"
    by (simp_all add: register_pet_type_def)
  have fresh: "str_lower (pt_type pt) \<noteq> str_lower (pt_type obj)"
    if "pet_types s tid = Some pt" for tid pt
  proof -
    from that have "type_name_to_id s (str_lower (pt_type pt)) \<noteq> None"
      by (rule names_registeredD [OF catalog_invD(1) [OF assms(1)]])
    moreover from assms(2) have "type_name_to_id s (str_lower (pt_type obj)) = None"
      by (simp add: pet_type_exists_by_name_def)
    ultimately show ?thesis by auto
  qed
  have 1: "names_registered ?s'"
    unfolding names_registered_def
  proof (intro allI impI)
    fix tid pt assume "pet_types ?s' tid = Some pt"
    then have "pt = obj \<or> pet_types s tid = Some pt"
      by (simp add: pt split: if_splits)
    then show "type_name_to_id ?s' (str_lower (pt_type pt)) \<noteq> None"
    proof
      assume "pt = obj" then show ?thesis by (simp add: tn)
    next
      assume "pet_types s tid = Some pt"
      then have "type_name_to_id s (str_lower (pt_type pt)) \<noteq> None"
        by (rule names_registeredD [OF catalog_invD(1) [OF assms(1)]])
      then show ?thesis by (simp add: tn)
    qed
  qed
  have 2: "names_unique ?s'"
    unfolding names_unique_def
  proof (intro allI impI)
    fix t1 t2 p1 p2
    assume a: "pet_types ?s' t1 = Some p1 \<and> pet_types ?s' t2 = Some p2
                 \<and> str_lower (pt_type p1) = str_lower (pt_type p2)"
    show "t1 = t2"
    proof (cases "t1 = pt_id obj")
      case True
      show ?thesis
      proof (cases "t2 = pt_id obj")
        case True
        with \<open>t1 = pt_id obj\<close> show ?thesis by simp
      next
        case False
        with a have "pet_types s t2 = Some p2" by (simp add: pt)
        from fresh [OF this] a True show ?thesis by (simp add: pt)
      qed
    next
      case False
      with a have p1: "pet_types s t1 = Some p1" by (simp add: pt)
      show ?thesis
      proof (cases "t2 = pt_id obj")
        case True
        from fresh [OF p1] a True show ?thesis by (simp add: pt)
      next
        case False
        with a have "pet_types s t2 = Some p2" by (simp add: pt)
        with p1 a show ?thesis
          using names_uniqueD [OF catalog_invD(2) [OF assms(1)], of t1 p1 t2 p2] by simp
      qed
    qed
  qed
  have 3: "pets_listed ?s'"
    unfolding pets_listed_def
  proof (intro allI impI)
    fix tid pt assume a: "pet_types ?s' tid = Some pt"
    show "str_lower ` set (pt_pets pt) = dom (get_pets_for_type tid ?s')"
    proof (cases "tid = pt_id obj")
      case True
      have e: "get_pets_for_type (pt_id obj) ?s' = Map.empty"
        by (simp add: pb get_pets_for_type_def)
      from a True have "pt_pets pt = []" using assms(3) by (simp add: pt)
      with e True show ?thesis by simp
    next
      case False
      with a have "pet_types s tid = Some pt" by (simp add: pt)
      then have "str_lower ` set (pt_pets pt) = dom (get_pets_for_type tid s)"
        by (rule pets_listedD [OF catalog_invD(3) [OF assms(1)]])
      with False show ?thesis by (simp add: pb get_pets_for_type_def)
    qed
  qed
  have 4: "pictures_named ?s'"
    unfolding pictures_named_def
  proof (intro allI impI)
    fix tid k p assume a: "get_pets_for_type tid ?s' k = Some p"
    then have "get_pets_for_type tid s k = Some p"
      by (simp add: pb get_pets_for_type_def split: if_splits)
    then show "p_picture p \<noteq> []"
      by (rule pictures_namedD [OF catalog_invD(4) [OF assms(1)]])
  qed
  from 1 2 3 4 show ?thesis by (simp add: catalog_inv_def)
qed

lemma inv_remove:
  assumes "catalog_inv s"
  shows "catalog_inv (remove_pet_type tid s)"
proof (cases "pet_types s tid")
  case None
  then show ?thesis using assms by (simp add: remove_pet_type_def)
next
  case (Some pt0)
  let ?s' = "remove_pet_type tid s"
  have pt: "pet_types ?s' = (pet_types s)(tid := None)"
    and tn: "type_name_to_id ?s' = (type_name_to_id s)(str_lower (pt_type pt0) := None)"
    and pb: "pets_by_type ?s' = (pets_by_type s)(tid := None)"
    using Some by (simp_all add: remove_pet_type_def)
  have old: "t \<noteq> tid \<and> pet_types s t = Some p" if "pet_types ?s' t = Some p" for t p
    using that by (simp add: pt split: if_splits)
  have 1: "names_registered ?s'"
    unfolding names_registered_def
  proof (intro allI impI)
    fix t p assume "pet_types ?s' t = Some p"
    from old [OF this] have ne: "t \<noteq> tid" and p: "pet_types s t = Some p" by simp_all
    from p have reg: "type_name_to_id s (str_lower (pt_type p)) \<noteq> None"
      by (rule names_registeredD [OF catalog_invD(1) [OF assms]])
    have "str_lower (pt_type p) \<noteq> str_lower (pt_type pt0)"
    proof
      assume "str_lower (pt_type p) = str_lower (pt_type pt0)"
      with p Some have "t = tid"
        using names_uniqueD [OF catalog_invD(2) [OF assms], of t p tid pt0] by simp
      with ne show False by simp
    qed
    with reg show "type_name_to_id ?s' (str_lower (pt_type p)) \<noteq> None"
      by (simp add: tn)
  qed
  have 2: "names_unique ?s'"
    unfolding names_unique_def
  proof (intro allI impI)
    fix t1 t2 p1 p2
    assume a: "pet_types ?s' t1 = Some p1 \<and> pet_types ?s' t2 = Some p2
                 \<and> str_lower (pt_type p1) = str_lower (pt_type p2)"
    then have "pet_types s t1 = Some p1" and "pet_types s t2 = Some p2"
      using old by blast+
    with a show "t1 = t2"
      using names_uniqueD [OF catalog_invD(2) [OF assms], of t1 p1 t2 p2] by simp
  qed
  have 3: "pets_listed ?s'"
    unfolding pets_listed_def
  proof (intro allI impI)
    fix t p assume "pet_types ?s' t = Some p"
    from old [OF this] have ne: "t \<noteq> tid" and p: "pet_types s t = Some p" by simp_all
    from p have "str_lower ` set (pt_pets p) = dom (get_pets_for_type t s)"
      by (rule pets_listedD [OF catalog_invD(3) [OF assms]])
    with ne show "str_lower ` set (pt_pets p) = dom (get_pets_for_type t ?s')"
      by (simp add: pb get_pets_for_type_def)
  qed
  have 4: "pictures_named ?s'"
    unfolding pictures_named_def
  proof (intro allI impI)
    fix t k p assume a: "get_pets_for_type t ?s' k = Some p"
    then have "get_pets_for_type t s k = Some p"
      by (simp add: pb get_pets_for_type_def split: if_splits)
    then show "p_picture p \<noteq> []"
      by (rule pictures_namedD [OF catalog_invD(4) [OF assms]])
  qed
  from 1 2 3 4 show ?thesis by (simp add: catalog_inv_def)
qed


lemma add_pet_fields:
  assumes "pet_types s tid = Some pt0"
  shows "fst (add_pet tid p s) = None"
    and "pets_by_type (snd (add_pet tid p s))
           = (pets_by_type s)(tid \<mapsto> (get_pets_for_type tid s)(str_lower (p_name p) \<mapsto> p))"
    and "pet_types (snd (add_pet tid p s))
           = (pet_types s)(tid \<mapsto> pt0\<lparr>pt_pets := (if p_name p \<in> set (pt_pets pt0) then pt_pets pt0
                                                  else pt_pets pt0 @ [p_name p])\<rparr>)"
    and "type_name_to_id (snd (add_pet tid p s)) = type_name_to_id s"
    and "next_pet_type_id (snd (add_pet tid p s)) = next_pet_type_id s"
  using assms by (auto simp: add_pet_def Let_def fun_upd_idem)

lemma get_pets_after_add:
  assumes "pet_types s tid = Some pt0"
  shows "get_pets_for_type t (snd (add_pet tid p s))
           = (if t = tid then (get_pets_for_type tid s)(str_lower (p_name p) \<mapsto> p)
              else get_pets_for_type t s)"
  by (simp add: get_pets_for_type_def [of t] add_pet_fields(2) [OF assms])

lemma inv_add_pet:
  assumes "catalog_inv s" and "pet_types s tid = Some pt0" and "p_picture p \<noteq> []"
  shows "catalog_inv (snd (add_pet tid p s))"
proof -
  let ?s' = "snd (add_pet tid p s)"
  let ?pt' = "pt0\<lparr>pt_pets := (if p_name p \<in> set (pt_pets pt0) then pt_pets pt0
                                else pt_pets pt0 @ [p_name p])\<rparr>"
  note f = add_pet_fields [OF assms(2), of p]
  note g = get_pets_after_add [OF assms(2), of _ p]
  have old: "(t = tid \<and> q = ?pt') \<or> (t \<noteq> tid \<and> pet_types s t = Some q)"
    if "pet_types ?s' t = Some q" for t q
    using that by (auto simp: f(3) split: if_splits)
  have same_type: "\<exists>q0. pet_types s t = Some q0 \<and> pt_type q0 = pt_type q"
    if "pet_types ?s' t = Some q" for t q
    using old [OF that] assms(2) by auto
  have 1: "names_registered ?s'"
    unfolding names_registered_def
  proof (intro allI impI)
    fix t q assume "pet_types ?s' t = Some q"
    from same_type [OF this] obtain q0 where "pet_types s t = Some q0" "pt_type q0 = pt_type q"
      by blast
    with names_registeredD [OF catalog_invD(1) [OF assms(1)], of t q0]
    show "type_name_to_id ?s' (str_lower (pt_type q)) \<noteq> None"
      by (simp add: f(4))
  qed
  have 2: "names_unique ?s'"
    unfolding names_unique_def
  proof (intro allI impI)
    fix t1 t2 p1 p2
    assume a: "pet_types ?s' t1 = Some p1 \<and> pet_types ?s' t2 = Some p2
                 \<and> str_lower (pt_type p1) = str_lower (pt_type p2)"
    from a same_type [of t1 p1] obtain q1 where q1: "pet_types s t1 = Some q1" "pt_type q1 = pt_type p1"
      by blast
    from a same_type [of t2 p2] obtain q2 where q2: "pet_types s t2 = Some q2" "pt_type q2 = pt_type p2"
      by blast
    from names_uniqueD [OF catalog_invD(2) [OF assms(1)] q1(1) q2(1)] q1(2) q2(2) a
    show "t1 = t2" by simp
  qed
  have 3: "pets_listed ?s'"
    unfolding pets_listed_def
  proof (intro allI impI)
    fix t q assume a: "pet_types ?s' t = Some q"
    show "str_lower ` set (pt_pets q) = dom (get_pets_for_type t ?s')"
    proof (cases "t = tid")
      case True
      with old [OF a] have q: "q = ?pt'" by simp
      have "str_lower ` set (pt_pets pt0) = dom (get_pets_for_type tid s)"
        by (rule pets_listedD [OF catalog_invD(3) [OF assms(1)] assms(2)])
      then have "str_lower ` set (pt_pets ?pt') = dom ((get_pets_for_type tid s)(str_lower (p_name p) \<mapsto> p))"
        by auto
      with q True show ?thesis by (simp add: g)
    next
      case False
      with old [OF a] have "pet_types s t = Some q" by simp
      from pets_listedD [OF catalog_invD(3) [OF assms(1)] this] False
      show ?thesis by (simp add: g)
    qed
  qed
  have 4: "pictures_named ?s'"
    unfolding pictures_named_def
  proof (intro allI impI)
    fix t k q assume a: "get_pets_for_type t ?s' k = Some q"
    then have "q = p \<or> get_pets_for_type t s k = Some q"
      by (auto simp: g split: if_splits)
    then show "p_picture q \<noteq> []"
      using assms(3) pictures_namedD [OF catalog_invD(4) [OF assms(1)], of t k q] by auto
  qed
  from 1 2 3 4 show ?thesis by (simp add: catalog_inv_def)
qed


lemma delete_pet_absent:
  assumes "get_pets_for_type tid s (str_lower n) = None"
  shows "delete_pet tid n s = (Inr None, s)"
  using assms by (simp add: delete_pet_def)

lemma delete_pet_present:
  assumes "get_pets_for_type tid s (str_lower n) = Some pet" and "pet_types s tid = Some pt0"
  shows "delete_pet tid n s =
           (Inr (Some pet),
            s\<lparr>pets_by_type := (pets_by_type s)(tid \<mapsto> (get_pets_for_type tid s)(str_lower n := None)),
              pet_types := (pet_types s)(tid \<mapsto>
                 pt0\<lparr>pt_pets := filter (\<lambda>x. str_lower x \<noteq> str_lower n) (pt_pets pt0)\<rparr>)\<rparr>)"
  using assms by (simp add: delete_pet_def Let_def)

lemma inv_delete_pet:
  assumes "catalog_inv s" and "pet_types s tid = Some pt0"
  shows "catalog_inv (snd (delete_pet tid n s))"
proof (cases "get_pets_for_type tid s (str_lower n)")
  case None
  then show ?thesis using assms(1) by (simp add: delete_pet_absent)
next
  case (Some pet)
  let ?pt' = "pt0\<lparr>pt_pets := filter (\<lambda>x. str_lower x \<noteq> str_lower n) (pt_pets pt0)\<rparr>"
  let ?s' = "s\<lparr>pets_by_type := (pets_by_type s)(tid \<mapsto> (get_pets_for_type tid s)(str_lower n := None)),
              pet_types := (pet_types s)(tid \<mapsto> ?pt')\<rparr>"
  have eq: "snd (delete_pet tid n s) = ?s'"
    by (simp add: delete_pet_present [OF Some assms(2)])
  have g: "get_pets_for_type t ?s'
             = (if t = tid then (get_pets_for_type tid s)(str_lower n := None)
                else get_pets_for_type t s)" for t
    by (simp add: get_pets_for_type_def [of t])
  have old: "(t = tid \<and> q = ?pt') \<or> (t \<noteq> tid \<and> pet_types s t = Some q)"
    if "pet_types ?s' t = Some q" for t q
    using that by (auto split: if_splits)
  have same_type: "\<exists>q0. pet_types s t = Some q0 \<and> pt_type q0 = pt_type q"
    if "pet_types ?s' t = Some q" for t q
    using old [OF that] assms(2) by auto
  have 1: "names_registered ?s'"
    unfolding names_registered_def
  proof (intro allI impI)
    fix t q assume "pet_types ?s' t = Some q"
    from same_type [OF this] obtain q0 where "pet_types s t = Some q0" "pt_type q0 = pt_type q"
      by blast
    with names_registeredD [OF catalog_invD(1) [OF assms(1)], of t q0]
    show "type_name_to_id ?s' (str_lower (pt_type q)) \<noteq> None"
      by simp
  qed
  have 2: "names_unique ?s'"
    unfolding names_unique_def
  proof (intro allI impI)
    fix t1 t2 p1 p2
    assume a: "pet_types ?s' t1 = Some p1 \<and> pet_types ?s' t2 = Some p2
                 \<and> str_lower (pt_type p1) = str_lower (pt_type p2)"
    from a same_type [of t1 p1] obtain q1 where q1: "pet_types s t1 = Some q1" "pt_type q1 = pt_type p1"
      by blast
    from a same_type [of t2 p2] obtain q2 where q2: "pet_types s t2 = Some q2" "pt_type q2 = pt_type p2"
      by blast
    from names_uniqueD [OF catalog_invD(2) [OF assms(1)] q1(1) q2(1)] q1(2) q2(2) a
    show "t1 = t2" by simp
  qed
  have 3: "pets_listed ?s'"
    unfolding pets_listed_def
  proof (intro allI impI)
    fix t q assume a: "pet_types ?s' t = Some q"
    show "str_lower ` set (pt_pets q) = dom (get_pets_for_type t ?s')"
    proof (cases "t = tid")
      case True
      with old [OF a] have q: "q = ?pt'" by simp
      have "str_lower ` set (pt_pets pt0) = dom (get_pets_for_type tid s)"
        by (rule pets_listedD [OF catalog_invD(3) [OF assms(1)] assms(2)])
      then have "str_lower ` set (pt_pets ?pt') = dom ((get_pets_for_type tid s)(str_lower n := None))"
        by auto
      with q True show ?thesis by (simp only: g) simp
    next
      case False
      with old [OF a] have "pet_types s t = Some q" by simp
      from pets_listedD [OF catalog_invD(3) [OF assms(1)] this] False
      show ?thesis by (simp only: g) simp
    qed
  qed
  have 4: "pictures_named ?s'"
    unfolding pictures_named_def
  proof (intro allI impI)
    fix t k q assume a: "get_pets_for_type t ?s' k = Some q"
    then have "get_pets_for_type t s k = Some q"
      by (auto simp: g split: if_splits)
    then show "p_picture q \<noteq> []"
      by (rule pictures_namedD [OF catalog_invD(4) [OF assms(1)]])
  qed
  from 1 2 3 4 eq show ?thesis by (simp add: catalog_inv_def)
qed

lemma download_picture_named:
  "download_picture env u = (Inr f, evs) \<Longrightarrow> f \<noteq> []"
  by (auto simp: download_picture_def split: get_outcome.splits if_splits)

lemma build_needs_name:
  assumes "build_or_update_pet env data ex = (Inr p, evs)"
  obtains nm bd where "data ''name'' = Some (JStr nm)"
    and "checked_birthdate (case data ''birthdate'' of None \<Rightarrow> JStr ''NA'' | Some v \<Rightarrow> v) = Some bd"
proof -
  from assms obtain nm where nm: "data ''name'' = Some (JStr nm)"
    by (cases "data ''name''"; cases "the (data ''name'')")
       (simp_all add: build_or_update_pet_def)
  from assms nm obtain bd where
    "checked_birthdate (case data ''birthdate'' of None \<Rightarrow> JStr ''NA'' | Some v \<Rightarrow> v) = Some bd"
    by (cases "checked_birthdate (case data ''birthdate'' of None \<Rightarrow> JStr ''NA'' | Some v \<Rightarrow> v)")
       (simp_all add: build_or_update_pet_def)
  with nm that show thesis by blast
qed

lemma build_picture_named:
  assumes "build_or_update_pet env data ex = (Inr p, evs)"
    and "\<And>e. ex = Some e \<Longrightarrow> p_picture e \<noteq> []"
  shows "p_picture p \<noteq> []"
proof -
  from assms(1) obtain nm bd where nm: "data ''name'' = Some (JStr nm)"
    and bd: "checked_birthdate (case data ''birthdate'' of None \<Rightarrow> JStr ''NA'' | Some v \<Rightarrow> v) = Some bd"
    by (rule build_needs_name)
  show ?thesis
  proof (cases ex)
    case None
    with assms(1) nm bd show ?thesis
      by (auto simp: build_or_update_pet_def Let_def split: if_splits prod.splits sum.splits
               dest: download_picture_named)
  next
    case (Some e)
    with assms(2) have e: "p_picture e \<noteq> []" by simp
    from assms(1) nm bd Some e show ?thesis
      by (auto simp: build_or_update_pet_def Let_def split: if_splits prod.splits sum.splits
               dest: download_picture_named)
  qed
qed


lemma inv_create_pet_type:
  assumes "catalog_inv s"
  shows "catalog_inv (fst (snd (create_pet_type env req s)))"
proof -
  have reg: "catalog_inv (register_pet_type
                \<lparr>pt_id = i, pt_type = n, pt_family = f, pt_genus = g, pt_attributes = a,
                 pt_lifespan = l, pt_pets = []\<rparr> (s\<lparr>next_pet_type_id := k\<rparr>))"
    if "\<not> pet_type_exists_by_name s n" for i n f g a l k
  proof (rule inv_register)
    show "catalog_inv (s\<lparr>next_pet_type_id := k\<rparr>)"
      using assms by (simp add: inv_next_id)
    show "\<not> pet_type_exists_by_name (s\<lparr>next_pet_type_id := k\<rparr>)
             (pt_type \<lparr>pt_id = i, pt_type = n, pt_family = f, pt_genus = g, pt_attributes = a,
                 pt_lifespan = l, pt_pets = []\<rparr>)"
      using that by (simp add: pet_type_exists_by_name_def)
    show "pt_pets \<lparr>pt_id = i, pt_type = n, pt_family = f, pt_genus = g, pt_attributes = a,
                 pt_lifespan = l, pt_pets = []\<rparr> = []"
      by simp
  qed
  show ?thesis
    using assms reg
    by (auto simp: create_pet_type_def generate_pet_type_id_def Let_def
             split: option.splits json.splits prod.splits sum.splits error.splits)
qed

lemma inv_delete_pet_type:
  assumes "catalog_inv s"
  shows "catalog_inv (fst (snd (delete_pet_type tid s)))"
  using assms inv_remove [OF assms, of tid]
  by (auto simp: delete_pet_type_def split: option.splits)

lemma inv_store_pet:
  assumes "catalog_inv s" and "pet_types s tid = Some pt0" and "p_picture p \<noteq> []"
  shows "catalog_inv (fst (snd (store_pet status tid p s evs)))"
  using inv_add_pet [OF assms] add_pet_fields(1) [OF assms(2), of p]
  by (cases "add_pet tid p s") (auto simp: store_pet_def)

lemma inv_create_pet:
  assumes "catalog_inv s"
  shows "catalog_inv (fst (snd (create_pet env tid req s)))"
proof (cases "pet_types s tid")
  case None
  then show ?thesis using assms by (simp add: create_pet_def)
next
  case (Some pt0)
  show ?thesis
  proof (cases "req_is_json req")
    case False
    with Some assms show ?thesis by (simp add: create_pet_def)
  next
    case True
    show ?thesis
    proof (cases "req_data req")
      case None
      with Some True assms show ?thesis by (simp add: create_pet_def)
    next
      case (Some data)
      obtain r evs where b: "build_or_update_pet env data None = (r, evs)"
        by (cases "build_or_update_pet env data None")
      show ?thesis
      proof (cases r)
        case (Inl e)
        with b Some True \<open>pet_types s tid = Some pt0\<close> assms show ?thesis
          by (simp add: create_pet_def)
      next
        case (Inr p)
        with b have "p_picture p \<noteq> []" using build_picture_named [of env data None p evs] by simp
        from inv_store_pet [OF assms \<open>pet_types s tid = Some pt0\<close> this]
        show ?thesis
          using b Inr Some True \<open>pet_types s tid = Some pt0\<close> by (simp add: create_pet_def)
      qed
    qed
  qed
qed

lemma inv_update_pet:
  assumes "catalog_inv s"
  shows "catalog_inv (fst (snd (update_pet env tid n req s)))"
proof (cases "pet_types s tid")
  case None
  then show ?thesis using assms by (simp add: update_pet_def)
next
  case (Some pt0)
  show ?thesis
  proof (cases "req_is_json req")
    case False
    with Some assms show ?thesis by (simp add: update_pet_def)
  next
    case True
    show ?thesis
    proof (cases "req_data req")
      case None
      with Some True assms show ?thesis by (simp add: update_pet_def)
    next
      case (Some data)
      show ?thesis
      proof (cases "get_pets_for_type tid s (str_lower n)")
        case None
        with Some True \<open>pet_types s tid = Some pt0\<close> assms show ?thesis
          by (simp add: update_pet_def)
      next
        case (Some ex)
        then have ex: "p_picture ex \<noteq> []"
          by (rule pictures_namedD [OF catalog_invD(4) [OF assms]])
        obtain r evs where b: "build_or_update_pet env data (Some ex) = (r, evs)"
          by (cases "build_or_update_pet env data (Some ex)")
        show ?thesis
        proof (cases r)
          case (Inl e)
          with b Some \<open>req_data req = Some data\<close> True \<open>pet_types s tid = Some pt0\<close> assms
          show ?thesis
            by (simp add: update_pet_def)
        next
          case (Inr p)
          with b ex have "p_picture p \<noteq> []"
            using build_picture_named [of env data "Some ex" p evs] by simp
          from inv_store_pet [OF assms \<open>pet_types s tid = Some pt0\<close> this]
          show ?thesis
            using b Inr Some \<open>req_data req = Some data\<close> True \<open>pet_types s tid = Some pt0\<close>
            by (simp add: update_pet_def)
        qed
      qed
    qed
  qed
qed

lemma inv_delete_pet_route:
  assumes "catalog_inv s"
  shows "catalog_inv (fst (snd (delete_pet_route tid n s)))"
proof (cases "pet_types s tid")
  case None
  then show ?thesis using assms by (simp add: delete_pet_route_def)
next
  case (Some pt0)
  from inv_delete_pet [OF assms Some, of n] Some show ?thesis
    by (cases "delete_pet tid n s")
       (auto simp: delete_pet_route_def split: sum.splits option.splits)
qed

lemma reachable_inv: "reachable s \<Longrightarrow> catalog_inv s"
proof (induction rule: reachable.induct)
  case start
  show ?case by (rule inv_init)
next
  case (by_create_pet_type s env req)
  then show ?case by (simp add: inv_create_pet_type)
next
  case (by_delete_pet_type s pet_type_id)
  then show ?case by (simp add: inv_delete_pet_type)
next
  case (by_create_pet s env pet_type_id req)
  then show ?case by (simp add: inv_create_pet)
next
  case (by_update_pet s env pet_type_id name req)
  then show ?case by (simp add: inv_update_pet)
next
  case (by_delete_pet s pet_type_id name)
  then show ?case by (simp add: inv_delete_pet_route)
qed

section \<open>Properties of the catalog service\<close>

lemma reachable_bulldog: "reachable bulldog_catalog"
  unfolding bulldog_catalog_def by (rule reachable.by_create_pet_type [OF reachable.start])

lemma reachable_rex: "reachable rex_catalog"
  unfolding rex_catalog_def by (rule reachable.by_create_pet [OF reachable_bulldog])

lemma bulldog_type:
  "pet_types bulldog_catalog ''1''
     = Some \<lparr>pt_id = ''1'', pt_type = ''Bulldog'', pt_family = ''Canidae'', pt_genus = ''Canis'',
             pt_attributes = [''Gentle'', ''calm'', ''and'', ''affectionate''],
             pt_lifespan = None, pt_pets = []\<rparr>"
  by code_simp

lemma rex_type:
  "pet_types rex_catalog ''1''
     = Some \<lparr>pt_id = ''1'', pt_type = ''Bulldog'', pt_family = ''Canidae'', pt_genus = ''Canis'',
             pt_attributes = [''Gentle'', ''calm'', ''and'', ''affectionate''],
             pt_lifespan = None, pt_pets = [''Rex'']\<rparr>"
  by code_simp

lemma rex_pet:
  "get_pets_for_type ''1'' rex_catalog ''rex''
     = Some \<lparr>p_name = ''Rex'', p_birthdate = ''01-03-2024'', p_picture = ''pet_7.png'',
             p_picture_url = JStr ''http://pics/a.png''\<rparr>"
  by code_simp

text \<open>
  C7. In every reachable catalog, a JSON request to register a type whose name equals,
  lower-cased, the name of a registered type is answered 400 "Malformed data"; the
  catalog is unchanged and the live lookup is not entered, whatever the surroundings
  (and so whatever the lookup would have returned).
\<close>

theorem duplicate_type_name_rejected:
  assumes "reachable s" and "pet_types s tid = Some pt"
    and "str_lower (pt_type pt) = str_lower type_name"
    and "req_is_json req" and "req_data req = Some data"
    and "data ''type'' = Some (JStr type_name)"
  shows "create_pet_type env req s = (json_error ''Malformed data'' 400, s, [])"
proof -
  have "names_registered s"
    by (rule catalog_invD(1) [OF reachable_inv [OF assms(1)]])
  from names_registeredD [OF this assms(2)] assms(3)
  have "pet_type_exists_by_name s type_name"
    by (simp add: pet_type_exists_by_name_def)
  with assms(4-6) show ?thesis by (simp add: create_pet_type_def)
qed

theorem duplicate_type_name_rejected_witness:
  "ninja_live picture_env ''BULLDOG''
     = Inr \<lparr>tx_family = ''Felidae'', tx_genus = ''Felis'', tx_attributes = [], tx_lifespan = None\<rparr>
   \<and> create_pet_type picture_env (json_request [(''type'', JStr ''BULLDOG'')]) bulldog_catalog
     = (json_error ''Malformed data'' 400, bulldog_catalog, [])"
proof -
  have l: "str_lower (pt_type \<lparr>pt_id = ''1'', pt_type = ''Bulldog'', pt_family = ''Canidae'',
             pt_genus = ''Canis'',
             pt_attributes = [''Gentle'', ''calm'', ''and'', ''affectionate''],
             pt_lifespan = None, pt_pets = []\<rparr>) = str_lower ''BULLDOG''"
    by code_simp
  have j: "req_is_json (json_request [(''type'', JStr ''BULLDOG'')])"
    and d: "req_data (json_request [(''type'', JStr ''BULLDOG'')])
              = Some (map_of [(''type'', JStr ''BULLDOG'')])"
    by (simp_all add: json_request_def)
  have t: "map_of [(''type'', JStr ''BULLDOG'')] ''type'' = Some (JStr ''BULLDOG'')"
    by simp
  have n: "ninja_live picture_env ''BULLDOG''
     = Inr \<lparr>tx_family = ''Felidae'', tx_genus = ''Felis'', tx_attributes = [], tx_lifespan = None\<rparr>"
    by (simp add: picture_env_def)
  from duplicate_type_name_rejected [OF reachable_bulldog bulldog_type l j d t, of picture_env] n
  show ?thesis by simp
qed

text \<open>
  C2, as the code has it. Registering "Australian Shepherd" in a catalog that does not
  know the name yet returns 201 with the next id, family Canidae, genus Canis, lifespan
  15, no pets, and the attributes of the fixed table as they stand there: Loyal (with a
  capital L), outgoing, and, friendly. The live lookup is not entered.
\<close>

theorem australian_shepherd_created:
  assumes "req_is_json req" and "req_data req = Some data"
    and "data ''type'' = Some (JStr ''Australian Shepherd'')"
    and "\<not> pet_type_exists_by_name s ''Australian Shepherd''"
  shows "create_pet_type env req s
           = ((201, PetTypeJson
                 \<lparr>pt_id = str_nat (next_pet_type_id s), pt_type = ''Australian Shepherd'',
                  pt_family = ''Canidae'', pt_genus = ''Canis'',
                  pt_attributes = [''Loyal'', ''outgoing'', ''and'', ''friendly''],
                  pt_lifespan = Some 15, pt_pets = []\<rparr>),
              register_pet_type
                 \<lparr>pt_id = str_nat (next_pet_type_id s), pt_type = ''Australian Shepherd'',
                  pt_family = ''Canidae'', pt_genus = ''Canis'',
                  pt_attributes = [''Loyal'', ''outgoing'', ''and'', ''friendly''],
                  pt_lifespan = Some 15, pt_pets = []\<rparr>
                 (s\<lparr>next_pet_type_id := next_pet_type_id s + 1\<rparr>),
              [])"
proof -
  have key: "str_lower (str_strip ''Australian Shepherd'') = ''australian shepherd''"
    by code_simp
  have "fetch_pet_type_data env ''Australian Shepherd''
          = (Inr \<lparr>tx_family = ''Canidae'', tx_genus = ''Canis'',
                  tx_attributes = [''Loyal'', ''outgoing'', ''and'', ''friendly''],
                  tx_lifespan = Some 15\<rparr>, [])"
    by (simp add: fetch_pet_type_data_def key ASSN4_PETTYPE_MAP_def)
  with assms show ?thesis
    by (simp add: create_pet_type_def generate_pet_type_id_def Let_def)
qed

theorem australian_shepherd_created_witness:
  "create_pet_type picture_env (json_request [(''type'', JStr ''Australian Shepherd'')]) init_catalog
     = ((201, PetTypeJson
           \<lparr>pt_id = ''1'', pt_type = ''Australian Shepherd'',
            pt_family = ''Canidae'', pt_genus = ''Canis'',
            pt_attributes = [''Loyal'', ''outgoing'', ''and'', ''friendly''],
            pt_lifespan = Some 15, pt_pets = []\<rparr>),
        register_pet_type
           \<lparr>pt_id = ''1'', pt_type = ''Australian Shepherd'',
            pt_family = ''Canidae'', pt_genus = ''Canis'',
            pt_attributes = [''Loyal'', ''outgoing'', ''and'', ''friendly''],
            pt_lifespan = Some 15, pt_pets = []\<rparr>
           (init_catalog\<lparr>next_pet_type_id := 2\<rparr>),
        [])"
proof -
  have j: "req_is_json (json_request [(''type'', JStr ''Australian Shepherd'')])"
    and d: "req_data (json_request [(''type'', JStr ''Australian Shepherd'')])
              = Some (map_of [(''type'', JStr ''Australian Shepherd'')])"
    by (simp_all add: json_request_def)
  have t: "map_of [(''type'', JStr ''Australian Shepherd'')] ''type''
             = Some (JStr ''Australian Shepherd'')"
    by simp
  have n: "\<not> pet_type_exists_by_name init_catalog ''Australian Shepherd''"
    by (simp add: pet_type_exists_by_name_def init_catalog_def)
  have i: "str_nat (next_pet_type_id init_catalog) = ''1''"
    and k: "next_pet_type_id init_catalog + 1 = 2"
    by (simp_all add: init_catalog_def str_nat.simps digit_char_def)
  from australian_shepherd_created [OF j d t n, of picture_env] i k
  show ?thesis by (simp add: numeral_2_eq_2)
qed

text \<open>
  C2 as stated asks for the attribute "loyal"; the reply carries "Loyal".
\<close>

theorem australian_shepherd_attributes_counterexample:
  "fst (create_pet_type picture_env (json_request [(''type'', JStr ''Australian Shepherd'')])
          init_catalog)
     = (201, PetTypeJson
           \<lparr>pt_id = ''1'', pt_type = ''Australian Shepherd'',
            pt_family = ''Canidae'', pt_genus = ''Canis'',
            pt_attributes = [''Loyal'', ''outgoing'', ''and'', ''friendly''],
            pt_lifespan = Some 15, pt_pets = []\<rparr>)
   \<and> [''Loyal'', ''outgoing'', ''and'', ''friendly'']
       \<noteq> [''loyal'', ''outgoing'', ''and'', ''friendly'']"
  by code_simp

lemma delete_pet_route_list:
  assumes "catalog_inv s" and "pet_types s tid = Some pt"
  shows "\<exists>pt'. pet_types (fst (snd (delete_pet_route tid n s))) tid = Some pt'
           \<and> pt_pets pt' = filter (\<lambda>x. str_lower x \<noteq> str_lower n) (pt_pets pt)"
proof (cases "get_pets_for_type tid s (str_lower n)")
  case None
  have "str_lower ` set (pt_pets pt) = dom (get_pets_for_type tid s)"
    by (rule pets_listedD [OF catalog_invD(3) [OF assms(1)] assms(2)])
  with None have "str_lower n \<notin> str_lower ` set (pt_pets pt)" by auto
  then have "\<forall>x \<in> set (pt_pets pt). str_lower x \<noteq> str_lower n"
    by (metis imageI)
  then have "filter (\<lambda>x. str_lower x \<noteq> str_lower n) (pt_pets pt) = pt_pets pt"
    by (simp add: filter_id_conv)
  with None assms(2) show ?thesis
    by (simp add: delete_pet_route_def delete_pet_absent)
next
  case (Some pet)
  with assms(2) show ?thesis
    by (simp add: delete_pet_route_def delete_pet_present [OF Some assms(2)])
qed

lemma delete_pets_list:
  assumes "reachable s" and "pet_types s tid = Some pt"
  shows "reachable (delete_pets tid ns s)
         \<and> (\<exists>pt'. pet_types (delete_pets tid ns s) tid = Some pt'
               \<and> pt_pets pt' = filter (\<lambda>x. str_lower x \<notin> str_lower ` set ns) (pt_pets pt))"
  using assms
proof (induction ns arbitrary: s pt)
  case Nil
  then show ?case by simp
next
  case (Cons n ns)
  let ?s1 = "fst (snd (delete_pet_route tid n s))"
  have r1: "reachable ?s1"
    by (rule reachable.by_delete_pet [OF Cons.prems(1)])
  from delete_pet_route_list [OF reachable_inv [OF Cons.prems(1)] Cons.prems(2), of n]
  obtain pt1 where pt1: "pet_types ?s1 tid = Some pt1"
    and l1: "pt_pets pt1 = filter (\<lambda>x. str_lower x \<noteq> str_lower n) (pt_pets pt)"
    by blast
  from Cons.IH [OF r1 pt1] obtain pt' where
    r: "reachable (delete_pets tid ns ?s1)"
    and p: "pet_types (delete_pets tid ns ?s1) tid = Some pt'"
    and l: "pt_pets pt' = filter (\<lambda>x. str_lower x \<notin> str_lower ` set ns) (pt_pets pt1)"
    by blast
  have "pt_pets pt' = filter (\<lambda>x. str_lower x \<notin> str_lower ` set (n # ns)) (pt_pets pt)"
    unfolding l l1 by (auto intro: filter_cong)
  with r p show ?case by simp
qed

lemma delete_empty_type:
  assumes "pet_types s tid = Some pt" and "pt_pets pt = []"
  shows "delete_pet_type tid s = ((204, NoBody), remove_pet_type tid s, [])"
    and "pet_types (remove_pet_type tid s) tid = None"
  using assms by (simp_all add: delete_pet_type_def remove_pet_type_def)

text \<open>
  C8. For a registered type: (1) while its list of pets is not empty, deleting the type
  is answered 400 "Malformed data" and the catalog is unchanged; (2) in a reachable
  catalog, after a deletion request for each name of its list, deleting the type is
  answered 204 and the type is gone; (3) in a reachable catalog where no pet is stored
  for the type, deleting it is answered 204 and the type is gone.
\<close>

theorem type_deletable_once_emptied:
  assumes "pet_types s tid = Some pt"
  shows "(pt_pets pt \<noteq> [] \<longrightarrow>
            delete_pet_type tid s = (json_error ''Malformed data'' 400, s, []))
       \<and> (reachable s \<longrightarrow>
            delete_pet_type tid (delete_pets tid (pt_pets pt) s)
              = ((204, NoBody), remove_pet_type tid (delete_pets tid (pt_pets pt) s), [])
            \<and> pet_types (remove_pet_type tid (delete_pets tid (pt_pets pt) s)) tid = None)
       \<and> (reachable s \<and> dom (get_pets_for_type tid s) = {} \<longrightarrow>
            delete_pet_type tid s = ((204, NoBody), remove_pet_type tid s, [])
            \<and> pet_types (remove_pet_type tid s) tid = None)"
proof (intro conjI impI)
  assume "pt_pets pt \<noteq> []"
  with assms show "delete_pet_type tid s = (json_error ''Malformed data'' 400, s, [])"
    by (simp add: delete_pet_type_def)
next
  assume r: "reachable s"
  from delete_pets_list [OF r assms, of "pt_pets pt"] obtain pt' where
    p: "pet_types (delete_pets tid (pt_pets pt) s) tid = Some pt'"
    and l: "pt_pets pt' = filter (\<lambda>x. str_lower x \<notin> str_lower ` set (pt_pets pt)) (pt_pets pt)"
    by blast
  from l have e: "pt_pets pt' = []" by (simp add: filter_empty_conv)
  from delete_empty_type [OF p e]
  show "delete_pet_type tid (delete_pets tid (pt_pets pt) s)
          = ((204, NoBody), remove_pet_type tid (delete_pets tid (pt_pets pt) s), [])"
    and "pet_types (remove_pet_type tid (delete_pets tid (pt_pets pt) s)) tid = None"
    by simp_all
next
  assume a: "reachable s \<and> dom (get_pets_for_type tid s) = {}"
  then have "str_lower ` set (pt_pets pt) = {}"
    using pets_listedD [OF catalog_invD(3) [OF reachable_inv] assms] by simp
  then have e: "pt_pets pt = []" by simp
  from delete_empty_type [OF assms e]
  show "delete_pet_type tid s = ((204, NoBody), remove_pet_type tid s, [])"
    and "pet_types (remove_pet_type tid s) tid = None"
    by simp_all
qed

theorem type_deletable_once_emptied_witness:
  "delete_pet_type ''1'' rex_catalog = (json_error ''Malformed data'' 400, rex_catalog, [])
   \<and> delete_pet_type ''1'' (delete_pets ''1'' [''Rex''] rex_catalog)
       = ((204, NoBody), remove_pet_type ''1'' (delete_pets ''1'' [''Rex''] rex_catalog), [])
   \<and> pet_types (remove_pet_type ''1'' (delete_pets ''1'' [''Rex''] rex_catalog)) ''1'' = None
   \<and> delete_pet_type ''1'' bulldog_catalog
       = ((204, NoBody), remove_pet_type ''1'' bulldog_catalog, [])"
proof -
  have e: "dom (get_pets_for_type ''1'' bulldog_catalog) = {}"
  proof -
    have "get_pets_for_type ''1'' bulldog_catalog k = None" for k
      by code_simp
    then show ?thesis by auto
  qed
  from type_deletable_once_emptied [OF rex_type] reachable_rex
       type_deletable_once_emptied [OF bulldog_type] reachable_bulldog e
  show ?thesis by simp
qed

lemma build_without_optional:
  assumes "data ''birthdate'' = None" and "data ''picture-url'' = None"
  shows "build_or_update_pet env data (Some ex) =
           (case data ''name'' of
              Some (JStr nm) \<Rightarrow>
                (Inr \<lparr>p_name = nm, p_birthdate = p_birthdate ex, p_picture = p_picture ex,
                      p_picture_url = p_picture_url ex\<rparr>, [])
            | _ \<Rightarrow> (Inl ValueError, []))"
  using assms
  by (simp add: build_or_update_pet_def Let_def split: option.splits json.splits)

lemma store_pet_known:
  assumes "pet_types s tid = Some pt0"
  shows "store_pet status tid p s evs = ((status, pet_to_json p), snd (add_pet tid p s), evs)"
  using add_pet_fields(1) [OF assms, of p]
  by (cases "add_pet tid p s") (simp add: store_pet_def)

text \<open>
  C9. For a stored pet and an update whose body has neither a birthdate nor a
  picture-url: after the update the pet stored under that name has the birthdate, the
  picture file name and the picture URL it had before, nothing is downloaded or removed,
  and, when the update is accepted (JSON, known type, a string as name), the reply is
  200 with the old birthdate and picture.
\<close>

theorem update_keeps_unsupplied_fields:
  assumes "get_pets_for_type tid s (str_lower n) = Some ex" and "req_data req = Some data"
    and "data ''birthdate'' = None" and "data ''picture-url'' = None"
  shows "(\<exists>ex'. get_pets_for_type tid (fst (snd (update_pet env tid n req s))) (str_lower n)
                  = Some ex'
              \<and> p_birthdate ex' = p_birthdate ex \<and> p_picture ex' = p_picture ex
              \<and> p_picture_url ex' = p_picture_url ex)
       \<and> snd (snd (update_pet env tid n req s)) = []
       \<and> (req_is_json req \<and> pet_types s tid \<noteq> None \<and> data ''name'' = Some (JStr nm)
          \<longrightarrow> fst (update_pet env tid n req s)
                = (200, PetJson nm (p_birthdate ex) (p_picture ex)))"
proof (cases "req_is_json req \<and> pet_types s tid \<noteq> None \<and> (\<exists>nm. data ''name'' = Some (JStr nm))")
  case False
  have b: "build_or_update_pet env data (Some ex) = (Inl ValueError, [])"
    if "\<not> (\<exists>nm. data ''name'' = Some (JStr nm))"
    using that build_without_optional [OF assms(3,4), of env ex]
    by (auto split: option.splits json.splits)
  from False have "update_pet env tid n req s = (fst (update_pet env tid n req s), s, [])"
    using assms(1,2) b by (auto simp: update_pet_def)
  then have "fst (snd (update_pet env tid n req s)) = s"
    and "snd (snd (update_pet env tid n req s)) = []"
    by (metis fst_conv snd_conv)+
  with False assms(1) show ?thesis by auto
next
  case True
  then obtain pt0 nm' where j: "req_is_json req" and pt0: "pet_types s tid = Some pt0"
    and nm': "data ''name'' = Some (JStr nm')"
    by auto
  let ?p = "\<lparr>p_name = nm', p_birthdate = p_birthdate ex, p_picture = p_picture ex,
             p_picture_url = p_picture_url ex\<rparr>"
  have b: "build_or_update_pet env data (Some ex) = (Inr ?p, [])"
    using build_without_optional [OF assms(3,4), of env ex] nm' by simp
  have u: "update_pet env tid n req s = ((200, pet_to_json ?p), snd (add_pet tid ?p s), [])"
    using j pt0 assms(1,2) b store_pet_known [OF pt0, of 200 ?p "[]"]
    by (simp add: update_pet_def)
  have g: "get_pets_for_type tid (snd (add_pet tid ?p s)) (str_lower n)
             = (if str_lower nm' = str_lower n then Some ?p else Some ex)"
    using assms(1) by (simp add: get_pets_after_add [OF pt0])
  from u g nm' show ?thesis
    by (auto simp: pet_to_json_def)
qed


theorem update_keeps_unsupplied_fields_witness:
  "(\<exists>ex'. get_pets_for_type ''1''
             (fst (snd (update_pet picture_env ''1'' ''REX''
                          (json_request [(''name'', JStr ''rex'')]) rex_catalog)))
             (str_lower ''REX'') = Some ex'
          \<and> p_birthdate ex' = ''01-03-2024'' \<and> p_picture ex' = ''pet_7.png''
          \<and> p_picture_url ex' = JStr ''http://pics/a.png'')
   \<and> snd (snd (update_pet picture_env ''1'' ''REX''
                  (json_request [(''name'', JStr ''rex'')]) rex_catalog)) = []
   \<and> fst (update_pet picture_env ''1'' ''REX''
             (json_request [(''name'', JStr ''rex'')]) rex_catalog)
       = (200, PetJson ''rex'' ''01-03-2024'' ''pet_7.png'')"
proof -
  let ?req = "json_request [(''name'', JStr ''rex'')]"
  have l: "str_lower ''REX'' = ''rex''" by code_simp
  have j: "req_is_json ?req" and d: "req_data ?req = Some (map_of [(''name'', JStr ''rex'')])"
    by (simp_all add: json_request_def)
  have b: "map_of [(''name'', JStr ''rex'')] ''birthdate'' = None"
    and u: "map_of [(''name'', JStr ''rex'')] ''picture-url'' = None"
    and n: "map_of [(''name'', JStr ''rex'')] ''name'' = Some (JStr ''rex'')"
    by simp_all
  have e: "get_pets_for_type ''1'' rex_catalog (str_lower ''REX'')
     = Some \<lparr>p_name = ''Rex'', p_birthdate = ''01-03-2024'', p_picture = ''pet_7.png'',
             p_picture_url = JStr ''http://pics/a.png''\<rparr>"
    using rex_pet by (simp add: l)
  from update_keeps_unsupplied_fields [OF e d b u, of picture_env "''rex''"] j n rex_type
  show ?thesis by simp
qed

lemma build_same_url:
  assumes "data ''picture-url'' = Some u" and "py_eq u (p_picture_url ex)"
  shows "snd (build_or_update_pet env data (Some ex)) = []"
  using assms
  by (simp add: build_or_update_pet_def Let_def dget_def split: option.splits json.splits)

lemma build_new_url:
  assumes "data ''name'' = Some (JStr nm)"
    and "checked_birthdate (case data ''birthdate'' of None \<Rightarrow> JStr ''NA'' | Some v \<Rightarrow> v) = Some bd"
    and "data ''picture-url'' = Some u" and "\<not> py_eq u (p_picture_url ex)" and "truthy u"
    and "p_picture ex \<noteq> ''NA''" and "p_picture ex \<noteq> []"
  shows "build_or_update_pet env data (Some ex) =
           (case download_picture env u of
              (Inl e, evs) \<Rightarrow> (Inl e, evs)
            | (Inr file_name, evs) \<Rightarrow>
                (Inr \<lparr>p_name = nm,
                      p_birthdate = (if data ''birthdate'' = None then p_birthdate ex else bd),
                      p_picture = file_name, p_picture_url = u\<rparr>,
                 evs @ [RemoveFile (p_picture ex)]))"
  using assms
  by (simp add: build_or_update_pet_def Let_def dget_def split: prod.splits sum.splits)

text \<open>
  C3, as the code has it. For a pet stored in a reachable catalog and a JSON update
  that supplies a picture-url: (1) if it equals the stored URL, nothing is downloaded
  and nothing removed; (2) if it differs, counts as true (a non-empty string), the pet
  has a picture file, and the body is otherwise well-formed (a string as name; the
  birthdate absent, "NA" or a valid date), then exactly one download is sent, and
  - if it answers 200 - the old picture file is removed once, after it; if it answers
  another status the reply is the server error, nothing is removed and the catalog is
  unchanged.
\<close>

theorem picture_url_update_effects:
  assumes "reachable s" and "pet_types s tid = Some pt"
    and "get_pets_for_type tid s (str_lower n) = Some ex"
    and "req_is_json req" and "req_data req = Some data" and "data ''picture-url'' = Some u"
  shows "(py_eq u (p_picture_url ex) \<longrightarrow> snd (snd (update_pet env tid n req s)) = [])
       \<and> (\<not> py_eq u (p_picture_url ex) \<and> truthy u \<and> p_picture ex \<noteq> ''NA''
          \<and> data ''name'' = Some (JStr nm)
          \<and> checked_birthdate (case data ''birthdate'' of None \<Rightarrow> JStr ''NA'' | Some v \<Rightarrow> v)
              \<noteq> None
          \<longrightarrow> (http_get env u = GetResponse 200 ct \<longrightarrow>
                 snd (snd (update_pet env tid n req s)) = [Download u, RemoveFile (p_picture ex)])
              \<and> (http_get env u = GetResponse st ct \<and> st \<noteq> 200 \<longrightarrow>
                 update_pet env tid n req s = (server_error_from_ninja st, s, [Download u])))"
proof (intro conjI impI)
  assume same: "py_eq u (p_picture_url ex)"
  obtain r evs where b: "build_or_update_pet env data (Some ex) = (r, evs)"
    by (cases "build_or_update_pet env data (Some ex)")
  with build_same_url [where data = data and env = env, OF assms(6) same] have evs: "evs = []" by simp
  show "snd (snd (update_pet env tid n req s)) = []"
  proof (cases r)
    case (Inl e)
    with b evs assms show ?thesis by (simp add: update_pet_def)
  next
    case (Inr p)
    with b evs assms store_pet_known [OF assms(2), of 200 p "[]"] show ?thesis
      by (simp add: update_pet_def)
  qed
next
  assume a: "\<not> py_eq u (p_picture_url ex) \<and> truthy u \<and> p_picture ex \<noteq> ''NA''
          \<and> data ''name'' = Some (JStr nm)
          \<and> checked_birthdate (case data ''birthdate'' of None \<Rightarrow> JStr ''NA'' | Some v \<Rightarrow> v)
              \<noteq> None"
  then obtain bd where bd:
    "checked_birthdate (case data ''birthdate'' of None \<Rightarrow> JStr ''NA'' | Some v \<Rightarrow> v) = Some bd"
    by auto
  have pic: "p_picture ex \<noteq> []"
    by (rule pictures_namedD [OF catalog_invD(4) [OF reachable_inv [OF assms(1)]] assms(3)])
  from a have nm: "data ''name'' = Some (JStr nm)" and ne: "\<not> py_eq u (p_picture_url ex)"
    and tr: "truthy u" and na: "p_picture ex \<noteq> ''NA''"
    by simp_all
  note b = build_new_url [where data = data and env = env, OF nm bd assms(6) ne tr na pic]
  {
    assume ok: "http_get env u = GetResponse 200 ct"
    let ?f = "''pet_'' @ str_nat (nat \<bar>py_hash env u\<bar>)
                @ (if str_contains ''png'' (str_lower ct) then ''.png'' else ''.jpg'')"
    let ?p = "\<lparr>p_name = nm,
               p_birthdate = (if data ''birthdate'' = None then p_birthdate ex else bd),
               p_picture = ?f, p_picture_url = u\<rparr>"
    from ok have "download_picture env u = (Inr ?f, [Download u])"
      by (simp add: download_picture_def)
    with b have "build_or_update_pet env data (Some ex)
                   = (Inr ?p, [Download u, RemoveFile (p_picture ex)])"
      by simp
    with assms store_pet_known [OF assms(2), of 200 ?p "[Download u, RemoveFile (p_picture ex)]"]
    show "snd (snd (update_pet env tid n req s)) = [Download u, RemoveFile (p_picture ex)]"
      by (simp add: update_pet_def)
  }
  {
    assume bad: "http_get env u = GetResponse st ct \<and> st \<noteq> 200"
    then have "download_picture env u = (Inl (NinjaApiError st), [Download u])"
      by (simp add: download_picture_def)
    with b have "build_or_update_pet env data (Some ex) = (Inl (NinjaApiError st), [Download u])"
      by simp
    with assms show "update_pet env tid n req s = (server_error_from_ninja st, s, [Download u])"
      by (simp add: update_pet_def)
  }
qed


theorem picture_url_update_effects_witness:
  "snd (snd (update_pet picture_env ''1'' ''Rex''
               (json_request [(''name'', JStr ''Rex''), (''picture-url'', JStr ''http://pics/a.png'')])
               rex_catalog)) = []
   \<and> snd (snd (update_pet open_env ''1'' ''Rex''
               (json_request [(''name'', JStr ''Rex''), (''picture-url'', JStr ''http://pics/b.png'')])
               rex_catalog))
       = [Download (JStr ''http://pics/b.png''), RemoveFile ''pet_7.png'']
   \<and> update_pet picture_env ''1'' ''Rex''
               (json_request [(''name'', JStr ''Rex''), (''picture-url'', JStr ''http://pics/b.png'')])
               rex_catalog
       = (server_error_from_ninja 404, rex_catalog, [Download (JStr ''http://pics/b.png'')])"
proof -
  let ?a = "[(''name'', JStr ''Rex''), (''picture-url'', JStr ''http://pics/a.png'')]"
  let ?b = "[(''name'', JStr ''Rex''), (''picture-url'', JStr ''http://pics/b.png'')]"
  let ?ex = "\<lparr>p_name = ''Rex'', p_birthdate = ''01-03-2024'', p_picture = ''pet_7.png'',
             p_picture_url = JStr ''http://pics/a.png''\<rparr>"
  have l: "str_lower ''Rex'' = ''rex''" by code_simp
  have e: "get_pets_for_type ''1'' rex_catalog (str_lower ''Rex'') = Some ?ex"
    using rex_pet by (simp add: l)
  have ja: "req_is_json (json_request ?a)" and da: "req_data (json_request ?a) = Some (map_of ?a)"
    and jb: "req_is_json (json_request ?b)" and db: "req_data (json_request ?b) = Some (map_of ?b)"
    by (simp_all add: json_request_def)
  have ua: "map_of ?a ''picture-url'' = Some (JStr ''http://pics/a.png'')"
    and ub: "map_of ?b ''picture-url'' = Some (JStr ''http://pics/b.png'')"
    by simp_all
  have same: "py_eq (JStr ''http://pics/a.png'') (p_picture_url ?ex)" by simp
  have other: "\<not> py_eq (JStr ''http://pics/b.png'') (p_picture_url ?ex)
          \<and> truthy (JStr ''http://pics/b.png'') \<and> p_picture ?ex \<noteq> ''NA''
          \<and> map_of ?b ''name'' = Some (JStr ''Rex'')
          \<and> checked_birthdate (case map_of ?b ''birthdate'' of None \<Rightarrow> JStr ''NA'' | Some v \<Rightarrow> v)
              \<noteq> None"
    by simp
  have g200: "http_get open_env (JStr ''http://pics/b.png'') = GetResponse 200 ''image/jpeg''"
    by (simp add: open_env_def)
  have g404: "http_get picture_env (JStr ''http://pics/b.png'') = GetResponse 404 ''text/html''
                \<and> (404::nat) \<noteq> 200"
    by (simp add: picture_env_def)
  from picture_url_update_effects [OF reachable_rex rex_type e ja da ua,
         where env = picture_env] same
  have 1: "snd (snd (update_pet picture_env ''1'' ''Rex'' (json_request ?a) rex_catalog)) = []"
    by blast
  from picture_url_update_effects [OF reachable_rex rex_type e jb db ub,
         where env = open_env and nm = "''Rex''" and ct = "''image/jpeg''"] other g200
  have 2: "snd (snd (update_pet open_env ''1'' ''Rex'' (json_request ?b) rex_catalog))
       = [Download (JStr ''http://pics/b.png''), RemoveFile (p_picture ?ex)]"
    by blast
  from picture_url_update_effects [OF reachable_rex rex_type e jb db ub,
         where env = picture_env and nm = "''Rex''" and ct = "''text/html''" and st = 404]
       other g404
  have 3: "update_pet picture_env ''1'' ''Rex'' (json_request ?b) rex_catalog
       = (server_error_from_ninja 404, rex_catalog, [Download (JStr ''http://pics/b.png'')])"
    by blast
  from 1 2 3 show ?thesis by simp
qed

text \<open>
  C3 as stated promises one download and one removal for every changed picture-url.
  Rex has the picture of one URL; an update to another URL whose download answers 404
  sends that one download and removes nothing.
\<close>

theorem failed_download_removes_nothing_counterexample:
  "map_option p_picture_url (get_pets_for_type ''1'' rex_catalog ''rex'')
     = Some (JStr ''http://pics/a.png'')
   \<and> snd (snd (update_pet picture_env ''1'' ''Rex''
               (json_request [(''name'', JStr ''Rex''), (''picture-url'', JStr ''http://pics/b.png'')])
               rex_catalog))
       = [Download (JStr ''http://pics/b.png'')]
   \<and> length (filter is_download
        (snd (snd (update_pet picture_env ''1'' ''Rex''
               (json_request [(''name'', JStr ''Rex''), (''picture-url'', JStr ''http://pics/b.png'')])
               rex_catalog)))) = 1
   \<and> length (filter is_removal
        (snd (snd (update_pet picture_env ''1'' ''Rex''
               (json_request [(''name'', JStr ''Rex''), (''picture-url'', JStr ''http://pics/b.png'')])
               rex_catalog)))) = 0"
  by code_simp

text \<open>
  The case C3 as amended leaves out: a pet stored without a picture. The handler
  compares the picture file names to decide on the download, both are "NA", so an
  update with a first picture-url downloads nothing and stores the URL all the same.
\<close>

lemma pictureless_pet_update_skips_download:
  "get_pets_for_type ''1'' twice_named ''rex''
     = Some \<lparr>p_name = ''rex'', p_birthdate = ''NA'', p_picture = ''NA'', p_picture_url = JNull\<rparr>
   \<and> http_get picture_env (JStr ''http://pics/a.png'') = GetResponse 200 ''image/png''
   \<and> snd (snd (update_pet picture_env ''1'' ''rex''
               (json_request [(''name'', JStr ''rex''), (''picture-url'', JStr ''http://pics/a.png'')])
               twice_named)) = []
   \<and> get_pets_for_type ''1''
        (fst (snd (update_pet picture_env ''1'' ''rex''
               (json_request [(''name'', JStr ''rex''), (''picture-url'', JStr ''http://pics/a.png'')])
               twice_named))) ''rex''
       = Some \<lparr>p_name = ''rex'', p_birthdate = ''NA'', p_picture = ''NA'',
               p_picture_url = JStr ''http://pics/a.png''\<rparr>"
  by code_simp

lemma create_pet_stored:
  assumes "pet_types s tid = Some pt0" and "req_is_json req" and "req_data req = Some data"
    and "build_or_update_pet env data None = (Inr p, evs)"
  shows "create_pet env tid req s = ((201, pet_to_json p), snd (add_pet tid p s), evs)"
  using assms store_pet_known [OF assms(1), of 201 p evs] by (simp add: create_pet_def)

lemma rex_catalog_added:
  "rex_catalog = snd (add_pet ''1''
      \<lparr>p_name = ''Rex'', p_birthdate = ''01-03-2024'', p_picture = ''pet_7.png'',
       p_picture_url = JStr ''http://pics/a.png''\<rparr> bulldog_catalog)"
proof -
  let ?kvs = "[(''name'', JStr ''Rex''), (''birthdate'', JStr ''01-03-2024''),
               (''picture-url'', JStr ''http://pics/a.png'')]"
  have j: "req_is_json (json_request ?kvs)"
    and d: "req_data (json_request ?kvs) = Some (map_of ?kvs)"
    by (simp_all add: json_request_def)
  have b: "build_or_update_pet picture_env (map_of ?kvs) None
           = (Inr \<lparr>p_name = ''Rex'', p_birthdate = ''01-03-2024'', p_picture = ''pet_7.png'',
                   p_picture_url = JStr ''http://pics/a.png''\<rparr>,
              [Download (JStr ''http://pics/a.png'')])"
    by code_simp
  show ?thesis
    unfolding rex_catalog_def create_pet_stored [OF bulldog_type j d b] by simp
qed

lemma twice_named_added:
  "twice_named = snd (add_pet ''1''
      \<lparr>p_name = ''rex'', p_birthdate = ''NA'', p_picture = ''NA'', p_picture_url = JNull\<rparr>
      rex_catalog)"
proof -
  let ?kvs = "[(''name'', JStr ''rex'')]"
  have j: "req_is_json (json_request ?kvs)"
    and d: "req_data (json_request ?kvs) = Some (map_of ?kvs)"
    by (simp_all add: json_request_def)
  have b: "build_or_update_pet picture_env (map_of ?kvs) None
           = (Inr \<lparr>p_name = ''rex'', p_birthdate = ''NA'', p_picture = ''NA'',
                   p_picture_url = JNull\<rparr>, [])"
    by code_simp
  show ?thesis
    unfolding twice_named_def create_pet_stored [OF rex_type j d b] by simp
qed

text \<open>
  C4 fails on the code. After adding a pet named Rex and then one named rex to the same
  type, the pets stored for the type are one, named rex, and the type's list holds two
  names, Rex and rex, equal when lower-cased: \<^verbatim>\<open>add_pet\<close> tests the exact string
  against the list where the store and \<^verbatim>\<open>delete_pet\<close> go by the lower-cased name.
\<close>

theorem case_variant_name_listed_twice:
  "map_option pt_pets (pet_types twice_named ''1'') = Some [''Rex'', ''rex'']
   \<and> dom (get_pets_for_type ''1'' twice_named) = {''rex''}
   \<and> map_option p_name (get_pets_for_type ''1'' twice_named ''rex'') = Some ''rex''
   \<and> \<not> distinct (map str_lower [''Rex'', ''rex''])"
proof -
  have l: "str_lower ''Rex'' = ''rex''" "str_lower ''rex'' = ''rex''" by code_simp+
  have e: "get_pets_for_type ''1'' bulldog_catalog = Map.empty"
  proof
    fix k show "get_pets_for_type ''1'' bulldog_catalog k = None" by code_simp
  qed
  have "get_pets_for_type ''1'' twice_named
          = (get_pets_for_type ''1'' rex_catalog)(''rex'' \<mapsto>
               \<lparr>p_name = ''rex'', p_birthdate = ''NA'', p_picture = ''NA'', p_picture_url = JNull\<rparr>)"
    unfolding twice_named_added by (simp add: get_pets_after_add [OF rex_type] l)
  moreover have "get_pets_for_type ''1'' rex_catalog
          = (get_pets_for_type ''1'' bulldog_catalog)(''rex'' \<mapsto>
               \<lparr>p_name = ''Rex'', p_birthdate = ''01-03-2024'', p_picture = ''pet_7.png'',
                p_picture_url = JStr ''http://pics/a.png''\<rparr>)"
    unfolding rex_catalog_added by (simp add: get_pets_after_add [OF bulldog_type] l)
  ultimately have d: "dom (get_pets_for_type ''1'' twice_named) = {''rex''}"
    by (simp add: e)
  have p: "map_option pt_pets (pet_types twice_named ''1'') = Some [''Rex'', ''rex'']"
    by code_simp
  have n: "map_option p_name (get_pets_for_type ''1'' twice_named ''rex'') = Some ''rex''"
    by code_simp
  from d p n l show ?thesis by simp
qed

end
